theory Spec2Isabelle
  imports Main "HOL-Library.AList" "HOL-Library.Char_ord" "HOL-Library.List_Lexorder"
begin

section \<open>PCI alias requests of nova (nova/pci/request.py)\<close>

text \<open>
  A shallow embedding of \<^verbatim>\<open>nova/pci/request.py\<close>. Python strings are \<open>string\<close>; a
  \<open>char\<close> stands for one code point below 256, so the whitespace and the digits of the
  model are those Python has in that range. Exceptions are values of the type \<open>exn\<close>, and
  a function that can raise returns \<open>exn + 'a\<close> with \<open>Inl\<close> the exception raised.
  The functions keep their names, without the leading underscore of the private ones;
  the configuration options they read are arguments.
\<close>

subsection \<open>Exceptions\<close>

text \<open>
  \<open>PciInvalidAlias\<close> is raised in three ways: with a positional message
  (\<open>Message\<close>), with \<open>reason=\<close> a string built in this module (\<open>Reason\<close>), and with
  \<open>reason=\<close> the text of an exception that was caught (\<open>exc.message\<close> of a schema
  violation, \<open>str(exc)\<close> of any other exception): \<open>TextOf\<close> of that exception. The text
  of library exceptions is the library's and is not spelled out.
\<close>

datatype exn =
    PciInvalidAlias alias_text
  | PciRequestAliasNotDefined string
  | PciRequestFromVIFNotFound string int
  | NotFound
  | ValidationError
  | KeyError string
  | IndexError
  | ValueError
  | OtherError string
and alias_text =
    Message string
  | Reason string
  | TextOf exn

subsection \<open>Strings\<close>

text \<open>
  \<open>str.isspace\<close> on the code points below 256: tab, line feed, vertical tab, form feed,
  carriage return, the four separators 28 to 31, space, next line (133) and no-break
  space (160).
\<close>

definition is_space :: "char \<Rightarrow> bool" where
  "is_space c \<longleftrightarrow> (of_char c :: nat) \<in> {9, 10, 11, 12, 13, 28, 29, 30, 31, 32, 133, 160}"

text \<open>\<open>str.strip()\<close>: leading and trailing whitespace removed.\<close>

definition strip :: "string \<Rightarrow> string" where
  "strip s = rev (dropWhile is_space (rev (dropWhile is_space s)))"

text \<open>\<open>s.split(sep)\<close> for a separator of one character: never an empty list.\<close>

fun split :: "char \<Rightarrow> string \<Rightarrow> string list" where
  "split sep [] = [[]]"
| "split sep (c # cs) =
     (if c = sep then [] # split sep cs
      else (case split sep cs of
              [] \<Rightarrow> [[c]]
            | w # ws \<Rightarrow> (c # w) # ws))"

text \<open>\<open>sep.join(xs)\<close>.\<close>

fun join :: "string \<Rightarrow> string list \<Rightarrow> string" where
  "join sep [] = []"
| "join sep [x] = x"
| "join sep (x # y # ys) = x @ sep @ join sep (y # ys)"

text \<open>
  \<open>str.lower()\<close> as far as a comparison with a lower-case ASCII word needs it: the
  letters A to Z are mapped, no other code point below 256 becomes an ASCII letter.
\<close>

definition lower_char :: "char \<Rightarrow> char" where
  "lower_char c =
     (let n = (of_char c :: nat) in if 65 \<le> n \<and> n \<le> 90 then char_of (n + 32) else c)"

definition lower :: "string \<Rightarrow> string" where
  "lower s = map lower_char s"

definition is_digit :: "char \<Rightarrow> bool" where
  "is_digit c \<longleftrightarrow> 48 \<le> (of_char c :: nat) \<and> (of_char c :: nat) \<le> 57"

definition digit_val :: "char \<Rightarrow> int" where
  "digit_val c = int (of_char c) - 48"

text \<open>
  The digits of a decimal literal, most significant first, with the underscores Python
  allows between two digits removed; \<open>None\<close> if the text is not such a literal.
\<close>

fun digits_of :: "string \<Rightarrow> int list option" where
  "digits_of [] = None"
| "digits_of [c] = (if is_digit c then Some [digit_val c] else None)"
| "digits_of (c # d # cs) =
     (if \<not> is_digit c then None
      else if d = CHR ''_'' then
        (case digits_of cs of None \<Rightarrow> None | Some ds \<Rightarrow> Some (digit_val c # ds))
      else
        (case digits_of (d # cs) of None \<Rightarrow> None | Some ds \<Rightarrow> Some (digit_val c # ds)))"

definition decimal :: "int list \<Rightarrow> int" where
  "decimal ds = foldl (\<lambda>acc d. 10 * acc + d) 0 ds"

text \<open>
  The whitespace that \<open>int\<close> ignores around a literal: of the code points below 256
  these are tab, line feed, vertical tab, form feed, carriage return and space, and
  beyond ASCII next line (133) and no-break space (160). The separators 28 to 31, which
  \<open>str.strip()\<close> removes, are refused by \<open>int\<close>.
\<close>

definition is_int_space :: "char \<Rightarrow> bool" where
  "is_int_space c \<longleftrightarrow> (of_char c :: nat) \<in> {9, 10, 11, 12, 13, 32, 133, 160}"

text \<open>
  The limit of the interpreter on the digits of a literal given to \<open>int\<close>, at its
  default \<open>sys.int_info.default_max_str_digits\<close>.
\<close>

definition int_max_str_digits :: nat where
  "int_max_str_digits = 4300"

definition literal_value :: "string \<Rightarrow> int option" where
  "literal_value s =
     (case digits_of s of
        None \<Rightarrow> None
      | Some ds \<Rightarrow> if int_max_str_digits < length ds then None else Some (decimal ds))"

text \<open>
  \<open>int(s)\<close> for a string: surrounding whitespace is ignored, one sign is allowed,
  then a decimal literal of at most \<open>int_max_str_digits\<close> digits; \<open>None\<close> is
  \<open>ValueError\<close>.
\<close>

definition py_int :: "string \<Rightarrow> int option" where
  "py_int s =
     (case rev (dropWhile is_int_space (rev (dropWhile is_int_space s))) of
        [] \<Rightarrow> None
      | c # cs \<Rightarrow>
          if c = CHR ''-'' then map_option uminus (literal_value cs)
          else if c = CHR ''+'' then literal_value cs
          else literal_value (c # cs))"

subsection \<open>Decoded JSON and the alias schema\<close>

text \<open>
  What \<open>jsonutils.loads\<close> returns. An object is a dict, here the list of its items in
  insertion order (one item per key). The schema rejects every number before its value
  is read, so whole numbers stand for all of them.
\<close>

datatype json =
    JNull
  | JBool bool
  | JNumber int
  | JString string
  | JArray "json list"
  | JObject "(string \<times> json) list"

text \<open>
  Modelled from the spec: the three device types of \<open>obj_fields.PciDeviceType\<close> that an
  alias may name (standard, SR-IOV physical function, SR-IOV virtual function); the
  class is not part of this module. The docstring of the module writes the first one.
\<close>

definition PciDeviceType_STANDARD :: string where
  "PciDeviceType_STANDARD = ''type-PCI''"

definition PciDeviceType_SRIOV_PF :: string where
  "PciDeviceType_SRIOV_PF = ''type-PF''"

definition PciDeviceType_SRIOV_VF :: string where
  "PciDeviceType_SRIOV_VF = ''type-VF''"

text \<open>
  Modelled from the spec: the NUMA affinity policies of
  \<open>obj_fields.PCINUMAAffinityPolicy\<close>, a fixed enumeration with the default "legacy";
  the class is not part of this module.
\<close>

definition PCINUMAAffinityPolicy_LEGACY :: string where
  "PCINUMAAffinityPolicy_LEGACY = ''legacy''"

definition PCINUMAAffinityPolicy_ALL :: "string list" where
  "PCINUMAAffinityPolicy_ALL = [''required'', ''legacy'', ''preferred'', ''socket'']"

text \<open>
  Modelled from the spec: \<open>utils.PCI_VENDOR_PATTERN\<close>, the 4-hex-digit pattern of
  vendor and product identifiers; \<open>nova.pci.utils\<close> is not part of this module.
\<close>

definition is_hex :: "char \<Rightarrow> bool" where
  "is_hex c \<longleftrightarrow>
     (let n = (of_char c :: nat)
      in (48 \<le> n \<and> n \<le> 57) \<or> (97 \<le> n \<and> n \<le> 102) \<or> (65 \<le> n \<and> n \<le> 70))"

definition matches_PCI_VENDOR_PATTERN :: "string \<Rightarrow> bool" where
  "matches_PCI_VENDOR_PATTERN s \<longleftrightarrow> length s = 4 \<and> list_all is_hex s"

text \<open>
  The sub-schema of one property of \<open>_ALIAS_SCHEMA\<close>; a key that is not a property is
  refused (\<open>additionalProperties: False\<close>).
\<close>

definition property_ok :: "string \<Rightarrow> json \<Rightarrow> bool" where
  "property_ok k v =
     (case v of
        JString s \<Rightarrow>
          if k = ''name'' then 1 \<le> length s \<and> length s \<le> 256
          else if k = ''capability_type'' then s \<in> set [''pci'']
          else if k = ''product_id'' then matches_PCI_VENDOR_PATTERN s
          else if k = ''vendor_id'' then matches_PCI_VENDOR_PATTERN s
          else if k = ''device_type'' then
            s \<in> set [PciDeviceType_STANDARD, PciDeviceType_SRIOV_PF, PciDeviceType_SRIOV_VF]
          else if k = ''numa_policy'' then s \<in> set PCINUMAAffinityPolicy_ALL
          else if k = ''resource_class'' then True
          else if k = ''traits'' then True
          else if k = ''live_migratable'' then True
          else False
      | _ \<Rightarrow> False)"

text \<open>
  \<open>jsonschema.validate(spec, _ALIAS_SCHEMA)\<close> returns: the value is an object, every
  item satisfies its property, and \<open>name\<close> is there. Otherwise it raises
  \<open>ValidationError\<close>.
\<close>

definition alias_schema_ok :: "json \<Rightarrow> bool" where
  "alias_schema_ok j =
     (case j of
        JObject items \<Rightarrow>
          list_all (\<lambda>(k, v). property_ok k v) items \<and> map_of items ''name'' \<noteq> None
      | _ \<Rightarrow> False)"

text \<open>
  A validated object has string members only; from here on the dict is carried as a
  dict of strings, a spec: the list of its items in insertion order.
\<close>

type_synonym spec = "(string \<times> string) list"

fun members :: "(string \<times> json) list \<Rightarrow> spec" where
  "members [] = []"
| "members ((k, JString s) # items) = (k, s) # members items"
| "members (_ # items) = members items"

text \<open>
  \<open>strutils.bool_from_string(subject, strict=True)\<close> of oslo.utils; \<open>None\<close> is its
  \<open>ValueError\<close>.
\<close>

definition bool_from_string :: "string \<Rightarrow> bool option" where
  "bool_from_string subject =
     (let lowered = lower (strip subject)
      in if lowered \<in> set [''1'', ''t'', ''true'', ''on'', ''y'', ''yes''] then Some True
         else if lowered \<in> set [''0'', ''f'', ''false'', ''off'', ''n'', ''no''] then Some False
         else None)"

subsection \<open>\<open>get_alias_from_config\<close>\<close>

text \<open>
  The alias table: a dict from alias names to \<open>(numa_policy, specs)\<close>, here the list of
  its items in insertion order. \<open>map_of\<close> reads a key, \<open>AList.update\<close> is
  \<open>d[k] = v\<close> (a new key goes to the end, a known key keeps its place), and
  \<open>AList.delete\<close> removes a key.
\<close>

type_synonym alias_table = "(string \<times> (string \<times> spec list)) list"

definition quote :: string where
  "quote = [CHR 0x27]"

text \<open>
  The first half of the loop body, up to the normalisation of \<open>live_migratable\<close>: the
  name, the NUMA policy and the spec of one configured entry. The argument is what
  \<open>jsonutils.loads\<close> did on the entry: the exception it raised or the value it returned.
\<close>

definition alias_of_entry :: "exn + json \<Rightarrow> exn + (string \<times> string \<times> spec)" where
  "alias_of_entry loaded =
     (case loaded of
        Inl e \<Rightarrow> Inl e
      | Inr j \<Rightarrow>
          if \<not> alias_schema_ok j then Inl ValidationError
          else
            (case j of
               JObject items \<Rightarrow>
                 (let spec0 = members items in
                  case map_of spec0 ''name'' of
                    None \<Rightarrow> Inl (KeyError ''name'')
                  | Some raw_name \<Rightarrow>
                      (let name = strip raw_name;
                           spec1 = AList.delete ''name'' spec0;
                           numa_policy =
                             (case map_of spec1 ''numa_policy'' of
                                None \<Rightarrow> PCINUMAAffinityPolicy_LEGACY
                              | Some p \<Rightarrow> if p = [] then PCINUMAAffinityPolicy_LEGACY else p);
                           spec2 = AList.delete ''numa_policy'' spec1;
                           dev_type = map_of spec2 ''device_type'';
                           spec3 = AList.delete ''device_type'' spec2;
                           spec4 =
                             (case dev_type of
                                None \<Rightarrow> spec3
                              | Some d \<Rightarrow>
                                  if d = [] then spec3 else AList.update ''dev_type'' d spec3);
                           live_migratable = map_of spec4 ''live_migratable'';
                           spec5 = AList.delete ''live_migratable'' spec4
                       in case live_migratable of
                            None \<Rightarrow> Inr (name, numa_policy, spec5)
                          | Some lm \<Rightarrow>
                              (case bool_from_string lm of
                                 None \<Rightarrow> Inl ValueError
                               | Some b \<Rightarrow>
                                   Inr (name, numa_policy,
                                        AList.update ''live_migratable''
                                          (if b then ''true'' else ''false'') spec5))))
             | _ \<Rightarrow> Inl ValidationError))"

text \<open>
  The second half of the loop body: a new name is stored, a known name must have the
  same NUMA policy and the same \<open>dev_type\<close> as the first spec stored, and then the spec
  is appended. Reading \<open>dev_type\<close> in a spec that has none raises \<open>KeyError\<close>.
\<close>

definition add_alias :: "alias_table \<Rightarrow> string \<times> string \<times> spec \<Rightarrow> exn + alias_table" where
  "add_alias aliases entry =
     (case entry of (name, numa_policy, spec) \<Rightarrow>
        (case map_of aliases name of
           None \<Rightarrow> Inr (AList.update name (numa_policy, [spec]) aliases)
         | Some (stored_policy, specs) \<Rightarrow>
             if stored_policy \<noteq> numa_policy then
               Inl (PciInvalidAlias (Reason
                 (''NUMA policy mismatch for alias '' @ quote @ name @ quote)))
             else
               (case specs of
                  [] \<Rightarrow> Inl IndexError
                | first # _ \<Rightarrow>
                    (case map_of first ''dev_type'' of
                       None \<Rightarrow> Inl (KeyError ''dev_type'')
                     | Some stored_type \<Rightarrow>
                         (case map_of spec ''dev_type'' of
                            None \<Rightarrow> Inl (KeyError ''dev_type'')
                          | Some dev_type \<Rightarrow>
                              if stored_type \<noteq> dev_type then
                                Inl (PciInvalidAlias (Reason
                                  (''Device type mismatch for alias '' @ quote @ name @ quote)))
                              else
                                Inr (AList.update name (stored_policy, specs @ [spec])
                                       aliases))))))"

text \<open>The loop over the configured entries; it stops at the first exception.\<close>

fun build_aliases :: "alias_table \<Rightarrow> (exn + json) list \<Rightarrow> exn + alias_table" where
  "build_aliases aliases [] = Inr aliases"
| "build_aliases aliases (jsonspecs # rest) =
     (case alias_of_entry jsonspecs of
        Inl e \<Rightarrow> Inl e
      | Inr entry \<Rightarrow>
          (case add_alias aliases entry of
             Inl e \<Rightarrow> Inl e
           | Inr aliases' \<Rightarrow> build_aliases aliases' rest))"

text \<open>
  The three handlers of the \<open>try\<close>: \<open>PciInvalidAlias\<close> is raised again, and every other
  exception becomes a \<open>PciInvalidAlias\<close> whose reason is the text of the exception.
\<close>

fun as_invalid_alias :: "exn \<Rightarrow> exn" where
  "as_invalid_alias (PciInvalidAlias t) = PciInvalidAlias t"
| "as_invalid_alias ValidationError = PciInvalidAlias (TextOf ValidationError)"
| "as_invalid_alias e = PciInvalidAlias (TextOf e)"

text \<open>The three messages of the table checks, each a format string applied to names.\<close>

definition multiple_specs_message :: "string \<Rightarrow> string" where
  "multiple_specs_message names =
     ''The PCI alias(es) '' @ names @ '' have multiple specs but '' @
     ''[filter_scheduler]pci_in_placement is True. The PCI in '' @
     ''Placement feature only supports one spec per alias. You can '' @
     ''assign the same resource_class to multiple [pci]device_spec '' @
     ''matchers to allow using different devices for the same alias.''"

definition without_ids_or_rc_message :: "string \<Rightarrow> string" where
  "without_ids_or_rc_message names =
     ''The PCI alias(es) '' @ names @ '' does not have vendor_id and product_id '' @
     ''fields set or resource_class field set.''"

definition without_ids_message :: "string \<Rightarrow> string" where
  "without_ids_message names =
     ''The PCI alias(es) '' @ names @ '' does not have vendor_id and product_id '' @
     ''fields set.''"

text \<open>
  \<open>_validate_multispec\<close>, with \<open>CONF.filter_scheduler.pci_in_placement\<close> as an
  argument. \<open>Inr ()\<close> is a normal return.
\<close>

definition validate_multispec :: "bool \<Rightarrow> alias_table \<Rightarrow> exn + unit" where
  "validate_multispec pci_in_placement aliases =
     (if pci_in_placement then
        (let alias_with_multiple_specs =
               map fst (filter (\<lambda>(name, spec). length (snd spec) > 1) aliases)
         in if alias_with_multiple_specs \<noteq> [] then
              Inl (PciInvalidAlias (Message
                (multiple_specs_message (join '','' alias_with_multiple_specs))))
            else Inr ())
      else Inr ())"

definition has_ids :: "spec \<Rightarrow> bool" where
  "has_ids spec \<longleftrightarrow> map_of spec ''vendor_id'' \<noteq> None \<and> map_of spec ''product_id'' \<noteq> None"

definition has_rc :: "spec \<Rightarrow> bool" where
  "has_rc spec \<longleftrightarrow> map_of spec ''resource_class'' \<noteq> None"

text \<open>
  The two nested loops of \<open>_validate_required_ids\<close>: the set of the names of the
  aliases with a spec that fails \<open>ok\<close>.
\<close>

definition aliases_failing :: "(spec \<Rightarrow> bool) \<Rightarrow> alias_table \<Rightarrow> string set" where
  "aliases_failing ok aliases =
     set (concat (map (\<lambda>(name, alias). map (\<lambda>spec. name) (filter (\<lambda>spec. \<not> ok spec) (snd alias)))
                      aliases))"

definition validate_required_ids :: "bool \<Rightarrow> alias_table \<Rightarrow> exn + unit" where
  "validate_required_ids pci_in_placement aliases =
     (if pci_in_placement then
        (let alias_without_ids_or_rc =
               aliases_failing (\<lambda>spec. has_ids spec \<or> has_rc spec) aliases
         in if alias_without_ids_or_rc \<noteq> {} then
              Inl (PciInvalidAlias (Message
                (without_ids_or_rc_message
                   (join '','' (sorted_list_of_set alias_without_ids_or_rc)))))
            else Inr ())
      else
        (let alias_without_ids = aliases_failing has_ids aliases
         in if alias_without_ids \<noteq> {} then
              Inl (PciInvalidAlias (Message
                (without_ids_message (join '','' (sorted_list_of_set alias_without_ids)))))
            else Inr ()))"

definition validate_aliases :: "bool \<Rightarrow> alias_table \<Rightarrow> exn + unit" where
  "validate_aliases pci_in_placement aliases =
     (case validate_multispec pci_in_placement aliases of
        Inl e \<Rightarrow> Inl e
      | Inr _ \<Rightarrow> validate_required_ids pci_in_placement aliases)"

text \<open>
  \<open>get_alias_from_config\<close>, with \<open>CONF.filter_scheduler.pci_in_placement\<close> and what
  \<open>jsonutils.loads\<close> does on each entry of \<open>CONF.pci.alias\<close> as arguments. The cache
  of \<open>functools.cache\<close> is not part of the model.
\<close>

definition get_alias_from_config :: "bool \<Rightarrow> (exn + json) list \<Rightarrow> exn + alias_table" where
  "get_alias_from_config pci_in_placement jaliases =
     (case build_aliases [] jaliases of
        Inl e \<Rightarrow> Inl (as_invalid_alias e)
      | Inr aliases \<Rightarrow>
          (case validate_aliases pci_in_placement aliases of
             Inl e \<Rightarrow> Inl e
           | Inr _ \<Rightarrow> Inr aliases))"

subsection \<open>Objects\<close>

text \<open>
  \<open>objects.InstancePCIRequest\<close>; \<open>alias_name\<close>, \<open>numa_policy\<close> and \<open>request_id\<close> are
  nullable fields.
\<close>

record InstancePCIRequest =
  count :: int
  spec :: "spec list"
  alias_name :: "string option"
  numa_policy :: "string option"
  request_id :: "string option"

text \<open>\<open>objects.PciDevice\<close>; its \<open>request_id\<close> field is named \<open>dev_request_id\<close> here.\<close>

record PciDevice =
  compute_node_id :: int
  address :: string
  dev_request_id :: "string option"

record InstancePCIRequests =
  requests :: "InstancePCIRequest list"

record Instance =
  host :: string
  node :: string
  pci_devices :: "PciDevice list"
  pci_requests :: InstancePCIRequests

text \<open>\<open>network_model.VIF\<close>: \<open>vif['profile']\<close> is \<open>None\<close> or a dict.\<close>

record VIF =
  profile :: "(string \<times> string) list option"

text \<open>\<open>objects.ComputeNode\<close>; the field \<open>id\<close> is named \<open>node_id\<close> here.\<close>

record ComputeNode =
  node_id :: int

subsection \<open>\<open>_translate_alias_to_requests\<close>\<close>

text \<open>
  Modelled from the spec: the constructor of \<open>objects.InstancePCIRequest\<close>, a class that
  is not part of this module. The NUMA policy of a request is one of the fixed
  enumeration of NUMA affinity policies: the field refuses any other string with a
  \<open>ValueError\<close>. The other fields take any integer, list of specs and string.
\<close>

definition new_InstancePCIRequest ::
  "int \<Rightarrow> spec list \<Rightarrow> string \<Rightarrow> string \<Rightarrow> string \<Rightarrow> exn + InstancePCIRequest"
where
  "new_InstancePCIRequest c specs name policy uuid =
     (if policy \<in> set PCINUMAAffinityPolicy_ALL then
        Inr \<lparr>count = c, spec = specs, alias_name = Some name,
             numa_policy = Some policy, request_id = Some uuid\<rparr>
      else Inl ValueError)"

text \<open>
  One iteration of the loop, on the parts of one \<open>spec.split(':')\<close>: unpacking
  anything but two parts is a \<open>ValueError\<close>, as is a count that \<open>int\<close> refuses.
  \<open>uuid\<close> is what \<open>uuidutils.generate_uuid()\<close> returns in this iteration.
\<close>

definition alias_request ::
  "alias_table \<Rightarrow> string option \<Rightarrow> string \<Rightarrow> string list \<Rightarrow> exn + InstancePCIRequest"
where
  "alias_request pci_aliases affinity_policy uuid parts =
     (case parts of
        [name0, count0] \<Rightarrow>
          (let name = strip name0 in
           case map_of pci_aliases name of
             None \<Rightarrow> Inl (PciRequestAliasNotDefined name)
           | Some (alias_policy, specs) \<Rightarrow>
               (let policy =
                      (case affinity_policy of
                         None \<Rightarrow> alias_policy
                       | Some p \<Rightarrow> if p = [] then alias_policy else p)
                in case py_int count0 of
                     None \<Rightarrow> Inl ValueError
                   | Some c \<Rightarrow> new_InstancePCIRequest c specs name policy uuid))
      | _ \<Rightarrow> Inl ValueError)"

text \<open>
  The loop. The identifier generator is explicit state: \<open>generate_uuid n\<close> is the value
  of the call number \<open>n\<close> of \<open>uuidutils.generate_uuid()\<close>, and the number of calls made
  so far is threaded through and returned with the requests.
\<close>

fun translate_pairs ::
  "alias_table \<Rightarrow> string option \<Rightarrow> (nat \<Rightarrow> string) \<Rightarrow> string list list \<Rightarrow> nat
     \<Rightarrow> exn + (InstancePCIRequest list \<times> nat)"
where
  "translate_pairs pci_aliases affinity_policy generate_uuid [] n = Inr ([], n)"
| "translate_pairs pci_aliases affinity_policy generate_uuid (parts # rest) n =
     (case alias_request pci_aliases affinity_policy (generate_uuid n) parts of
        Inl e \<Rightarrow> Inl e
      | Inr pci_request \<Rightarrow>
          (case translate_pairs pci_aliases affinity_policy generate_uuid rest (Suc n) of
             Inl e \<Rightarrow> Inl e
           | Inr (more_requests, n') \<Rightarrow> Inr (pci_request # more_requests, n')))"

definition translate_alias_to_requests ::
  "bool \<Rightarrow> (exn + json) list \<Rightarrow> (nat \<Rightarrow> string) \<Rightarrow> string \<Rightarrow> string option \<Rightarrow> nat
     \<Rightarrow> exn + (InstancePCIRequest list \<times> nat)"
where
  "translate_alias_to_requests pci_in_placement jaliases generate_uuid alias_spec
       affinity_policy n =
     (case get_alias_from_config pci_in_placement jaliases of
        Inl e \<Rightarrow> Inl e
      | Inr pci_aliases \<Rightarrow>
          translate_pairs pci_aliases affinity_policy generate_uuid
            (map (split CHR '':'') (split CHR '','' alias_spec)) n)"

subsection \<open>\<open>get_instance_pci_request_from_vif\<close>\<close>

text \<open>
  \<^verbatim>\<open>vif['profile'].get('pci_slot') if vif['profile'] else None\<close>: an empty dict is
  falsy.
\<close>

definition vif_pci_dev_addr_of :: "VIF \<Rightarrow> string option" where
  "vif_pci_dev_addr_of vif =
     (case profile vif of
        None \<Rightarrow> None
      | Some p \<Rightarrow> (if p = [] then None else map_of p ''pci_slot''))"

text \<open>The first loop: the first device on the node with the address, if any.\<close>

fun find_pci_dev :: "int \<Rightarrow> string \<Rightarrow> PciDevice list \<Rightarrow> PciDevice option" where
  "find_pci_dev cn_id addr [] = None"
| "find_pci_dev cn_id addr (pci_dev # devs) =
     (if compute_node_id pci_dev = cn_id \<and> address pci_dev = addr then Some pci_dev
      else find_pci_dev cn_id addr devs)"

text \<open>The second loop: the first request with the device's \<open>request_id\<close>, if any.\<close>

fun find_pci_req :: "string option \<Rightarrow> InstancePCIRequest list \<Rightarrow> InstancePCIRequest option" where
  "find_pci_req rid [] = None"
| "find_pci_req rid (pci_req # reqs) =
     (if request_id pci_req = rid then Some pci_req else find_pci_req rid reqs)"

text \<open>
  \<open>get_by_host_and_nodename\<close> is \<open>objects.ComputeNode.get_by_host_and_nodename\<close> with
  the request context fixed: it returns the compute node or raises. \<open>NotFound\<close> (and its
  subclasses) is caught, every other exception propagates. The result \<open>Inr None\<close> is
  Python's \<open>return None\<close>.
\<close>

definition get_instance_pci_request_from_vif ::
  "(string \<Rightarrow> string \<Rightarrow> exn + ComputeNode) \<Rightarrow> Instance \<Rightarrow> VIF \<Rightarrow> exn + InstancePCIRequest option"
where
  "get_instance_pci_request_from_vif get_by_host_and_nodename instance vif =
     (case vif_pci_dev_addr_of vif of
        None \<Rightarrow> Inr None
      | Some vif_pci_dev_addr \<Rightarrow>
          if vif_pci_dev_addr = [] then Inr None
          else
            (case get_by_host_and_nodename (host instance) (node instance) of
               Inl NotFound \<Rightarrow> Inr None
             | Inl e \<Rightarrow> Inl e
             | Inr cn \<Rightarrow>
                 (case find_pci_dev (node_id cn) vif_pci_dev_addr (pci_devices instance) of
                    None \<Rightarrow> Inr None
                  | Some found_pci_dev \<Rightarrow>
                      (case find_pci_req (dev_request_id found_pci_dev)
                              (requests (pci_requests instance)) of
                         Some pci_req \<Rightarrow> Inr (Some pci_req)
                       | None \<Rightarrow>
                           Inl (PciRequestFromVIFNotFound vif_pci_dev_addr (node_id cn))))))"

subsection \<open>Example entries\<close>

text \<open>
  The two entries of the docstring of the module, decoded, the second one without its
  \<open>device_type\<close>, and an entry of the same name that gives a resource class only.
\<close>

definition QuickAssist_0443 :: "exn + json" where
  "QuickAssist_0443 =
     Inr (JObject [(''name'', JString ''QuickAssist''), (''product_id'', JString ''0443''),
                   (''vendor_id'', JString ''8086''), (''device_type'', JString ''type-PCI''),
                   (''numa_policy'', JString ''legacy'')])"

definition QuickAssist_0442 :: "exn + json" where
  "QuickAssist_0442 =
     Inr (JObject [(''name'', JString ''QuickAssist''), (''product_id'', JString ''0442''),
                   (''vendor_id'', JString ''8086''), (''device_type'', JString ''type-PCI'')])"

definition QuickAssist_untyped :: "exn + json" where
  "QuickAssist_untyped =
     Inr (JObject [(''name'', JString ''QuickAssist''), (''product_id'', JString ''0442''),
                   (''vendor_id'', JString ''8086'')])"

definition QuickAssist_class :: "exn + json" where
  "QuickAssist_class =
     Inr (JObject [(''name'', JString ''QuickAssist''),
                   (''resource_class'', JString ''CUSTOM_QAT'')])"

text \<open>Three aliases for the examples of the translation.\<close>

definition gpu_entry :: "exn + json" where
  "gpu_entry =
     Inr (JObject [(''name'', JString ''gpu''), (''vendor_id'', JString ''10de''),
                   (''product_id'', JString ''1db6''), (''numa_policy'', JString ''preferred'')])"

definition a_entry :: "exn + json" where
  "a_entry =
     Inr (JObject [(''name'', JString ''a''), (''vendor_id'', JString ''8086''),
                   (''product_id'', JString ''0443'')])"

definition b_entry :: "exn + json" where
  "b_entry =
     Inr (JObject [(''name'', JString ''b''), (''vendor_id'', JString ''8086''),
                   (''product_id'', JString ''0442''), (''device_type'', JString ''type-VF'')])"

text \<open>A generator of identifiers that never repeats: call \<open>n\<close> returns \<open>n\<close> letters.\<close>

definition letters :: "nat \<Rightarrow> string" where
  "letters n = replicate n CHR ''u''"

section \<open>Properties\<close>

subsection \<open>The binding resolver\<close>

lemma find_pci_dev_None:
  "find_pci_dev cn_id addr devs = None \<longleftrightarrow>
     (\<forall>d \<in> set devs. \<not> (compute_node_id d = cn_id \<and> address d = addr))"
  by (induction devs) auto

lemma find_pci_dev_Some:
  "find_pci_dev cn_id addr devs = Some d \<Longrightarrow>
     d \<in> set devs \<and> compute_node_id d = cn_id \<and> address d = addr"
  by (induction devs) (auto split: if_splits)

lemma find_pci_req_None:
  "find_pci_req rid reqs = None \<longleftrightarrow> (\<forall>r \<in> set reqs. request_id r \<noteq> rid)"
  by (induction reqs) auto

lemma find_pci_req_Some:
  "find_pci_req rid reqs = Some r \<Longrightarrow> r \<in> set reqs \<and> request_id r = rid"
  by (induction reqs) (auto split: if_splits)

lemma no_address_returns_None:
  assumes "vif_pci_dev_addr_of vif = None \<or> vif_pci_dev_addr_of vif = Some []"
  shows "get_instance_pci_request_from_vif lookup instance vif = Inr None"
  using assms by (auto simp: get_instance_pci_request_from_vif_def)

lemma vif_pci_dev_addr_of_profile:
  "vif_pci_dev_addr_of vif =
     (case profile vif of None \<Rightarrow> None | Some p \<Rightarrow> map_of p ''pci_slot'')"
  by (cases "profile vif") (auto simp: vif_pci_dev_addr_of_def)

text \<open>
  Claim C8. The binding resolver returns "no request" (\<open>None\<close>) and raises nothing in
  each of three cases: the binding profile of the interface carries no device address
  (there is no profile, or it has no \<open>pci_slot\<close>, or an empty one); the compute-node
  lookup raises \<open>NotFound\<close>; no device of the instance has both the identifier of the
  compute node and the device address of the interface.
\<close>

theorem resolver_no_request:
  "((case profile vif of None \<Rightarrow> True
       | Some p \<Rightarrow> map_of p ''pci_slot'' = None \<or> map_of p ''pci_slot'' = Some [])
      \<longrightarrow> get_instance_pci_request_from_vif lookup instance vif = Inr None)
   \<and> (lookup (host instance) (node instance) = Inl NotFound
      \<longrightarrow> get_instance_pci_request_from_vif lookup instance vif = Inr None)
   \<and> (\<forall>cn addr. lookup (host instance) (node instance) = Inr cn
        \<and> vif_pci_dev_addr_of vif = Some addr
        \<and> (\<forall>d \<in> set (pci_devices instance).
              \<not> (compute_node_id d = node_id cn \<and> address d = addr))
      \<longrightarrow> get_instance_pci_request_from_vif lookup instance vif = Inr None)"
proof (intro conjI impI allI)
  assume "case profile vif of None \<Rightarrow> True
       | Some p \<Rightarrow> map_of p ''pci_slot'' = None \<or> map_of p ''pci_slot'' = Some []"
  then have "vif_pci_dev_addr_of vif = None \<or> vif_pci_dev_addr_of vif = Some []"
    by (simp add: vif_pci_dev_addr_of_profile split: option.splits)
  then show "get_instance_pci_request_from_vif lookup instance vif = Inr None"
    by (rule no_address_returns_None)
next
  assume "lookup (host instance) (node instance) = Inl NotFound"
  then show "get_instance_pci_request_from_vif lookup instance vif = Inr None"
    by (simp add: get_instance_pci_request_from_vif_def split: option.splits)
next
  fix cn addr
  assume a: "lookup (host instance) (node instance) = Inr cn
        \<and> vif_pci_dev_addr_of vif = Some addr
        \<and> (\<forall>d \<in> set (pci_devices instance).
              \<not> (compute_node_id d = node_id cn \<and> address d = addr))"
  then have "find_pci_dev (node_id cn) addr (pci_devices instance) = None"
    by (simp add: find_pci_dev_None)
  with a show "get_instance_pci_request_from_vif lookup instance vif = Inr None"
    by (simp add: get_instance_pci_request_from_vif_def)
qed

text \<open>
  Claim C9. When the resolver finds a device of the instance on the current node with
  the device address of the interface: if no request of the instance has the
  \<open>request_id\<close> of that device, it raises \<open>PciRequestFromVIFNotFound\<close> with the device
  address and the compute-node identifier; if a request has it, such a request is
  returned.
\<close>

theorem resolver_request_of_device:
  assumes "vif_pci_dev_addr_of vif = Some addr" and "addr \<noteq> []"
    and "lookup (host instance) (node instance) = Inr cn"
    and "find_pci_dev (node_id cn) addr (pci_devices instance) = Some dev"
  shows "((\<forall>r \<in> set (requests (pci_requests instance)). request_id r \<noteq> dev_request_id dev)
           \<longrightarrow> get_instance_pci_request_from_vif lookup instance vif =
                 Inl (PciRequestFromVIFNotFound addr (node_id cn)))
       \<and> ((\<exists>r \<in> set (requests (pci_requests instance)). request_id r = dev_request_id dev)
           \<longrightarrow> (\<exists>r \<in> set (requests (pci_requests instance)).
                   request_id r = dev_request_id dev
                 \<and> get_instance_pci_request_from_vif lookup instance vif = Inr (Some r)))"
proof (intro conjI impI)
  assume "\<forall>r \<in> set (requests (pci_requests instance)). request_id r \<noteq> dev_request_id dev"
  then have "find_pci_req (dev_request_id dev) (requests (pci_requests instance)) = None"
    by (simp add: find_pci_req_None)
  with assms show "get_instance_pci_request_from_vif lookup instance vif =
                 Inl (PciRequestFromVIFNotFound addr (node_id cn))"
    by (simp add: get_instance_pci_request_from_vif_def)
next
  assume "\<exists>r \<in> set (requests (pci_requests instance)). request_id r = dev_request_id dev"
  then obtain r where r: "find_pci_req (dev_request_id dev) (requests (pci_requests instance)) = Some r"
    using find_pci_req_None [of "dev_request_id dev" "requests (pci_requests instance)"]
    by (cases "find_pci_req (dev_request_id dev) (requests (pci_requests instance))") auto
  with assms have "get_instance_pci_request_from_vif lookup instance vif = Inr (Some r)"
    by (simp add: get_instance_pci_request_from_vif_def)
  with find_pci_req_Some [OF r]
  show "\<exists>r \<in> set (requests (pci_requests instance)).
                   request_id r = dev_request_id dev
                 \<and> get_instance_pci_request_from_vif lookup instance vif = Inr (Some r)"
    by blast
qed


theorem resolver_no_request_witness:
  "(case profile \<lparr>profile = Some [(''vnic_type'', ''normal'')]\<rparr> of None \<Rightarrow> True
      | Some p \<Rightarrow> map_of p ''pci_slot'' = None \<or> map_of p ''pci_slot'' = Some [])
   \<and> get_instance_pci_request_from_vif (\<lambda>h n. Inr \<lparr>node_id = 1\<rparr>)
        \<lparr>host = ''h'', node = ''n'', pci_devices = [], pci_requests = \<lparr>requests = []\<rparr>\<rparr>
        \<lparr>profile = Some [(''vnic_type'', ''normal'')]\<rparr> = Inr None
   \<and> get_instance_pci_request_from_vif (\<lambda>h n. Inl NotFound)
        \<lparr>host = ''h'', node = ''n'', pci_devices = [], pci_requests = \<lparr>requests = []\<rparr>\<rparr>
        \<lparr>profile = Some [(''pci_slot'', ''0000:81:00.1'')]\<rparr> = Inr None
   \<and> vif_pci_dev_addr_of \<lparr>profile = Some [(''pci_slot'', ''0000:81:00.1'')]\<rparr>
        = Some ''0000:81:00.1''
   \<and> list_all (\<lambda>d. \<not> (compute_node_id d = node_id \<lparr>node_id = 1\<rparr>
                          \<and> address d = ''0000:81:00.1''))
        [\<lparr>compute_node_id = 2, address = ''0000:81:00.1'', dev_request_id = Some ''r1''\<rparr>]
   \<and> get_instance_pci_request_from_vif (\<lambda>h n. Inr \<lparr>node_id = 1\<rparr>)
        \<lparr>host = ''h'', node = ''n'',
         pci_devices = [\<lparr>compute_node_id = 2, address = ''0000:81:00.1'',
                         dev_request_id = Some ''r1''\<rparr>],
         pci_requests = \<lparr>requests = []\<rparr>\<rparr>
        \<lparr>profile = Some [(''pci_slot'', ''0000:81:00.1'')]\<rparr> = Inr None"
  using
    resolver_no_request [of "\<lparr>profile = Some [(''vnic_type'', ''normal'')]\<rparr>"
      "\<lambda>h n. Inr \<lparr>node_id = 1\<rparr>"
      "\<lparr>host = ''h'', node = ''n'', pci_devices = [], pci_requests = \<lparr>requests = []\<rparr>\<rparr>"]
    resolver_no_request [of "\<lparr>profile = Some [(''pci_slot'', ''0000:81:00.1'')]\<rparr>"
      "\<lambda>h n. Inl NotFound"
      "\<lparr>host = ''h'', node = ''n'', pci_devices = [], pci_requests = \<lparr>requests = []\<rparr>\<rparr>"]
    resolver_no_request [of "\<lparr>profile = Some [(''pci_slot'', ''0000:81:00.1'')]\<rparr>"
      "\<lambda>h n. Inr \<lparr>node_id = 1\<rparr>"
      "\<lparr>host = ''h'', node = ''n'',
         pci_devices = [\<lparr>compute_node_id = 2, address = ''0000:81:00.1'',
                         dev_request_id = Some ''r1''\<rparr>],
         pci_requests = \<lparr>requests = []\<rparr>\<rparr>"]
  by (simp add: vif_pci_dev_addr_of_def)

theorem resolver_request_of_device_witness:
  "vif_pci_dev_addr_of \<lparr>profile = Some [(''pci_slot'', ''0000:81:00.1'')]\<rparr>
        = Some ''0000:81:00.1''
   \<and> find_pci_dev 1 ''0000:81:00.1''
        [\<lparr>compute_node_id = 1, address = ''0000:81:00.1'', dev_request_id = Some ''r1''\<rparr>]
        = Some \<lparr>compute_node_id = 1, address = ''0000:81:00.1'', dev_request_id = Some ''r1''\<rparr>
   \<and> get_instance_pci_request_from_vif (\<lambda>h n. Inr \<lparr>node_id = 1\<rparr>)
        \<lparr>host = ''h'', node = ''n'',
         pci_devices = [\<lparr>compute_node_id = 1, address = ''0000:81:00.1'',
                         dev_request_id = Some ''r1''\<rparr>],
         pci_requests = \<lparr>requests =
           [\<lparr>count = 1, spec = [], alias_name = None, numa_policy = None,
             request_id = Some ''r2''\<rparr>]\<rparr>\<rparr>
        \<lparr>profile = Some [(''pci_slot'', ''0000:81:00.1'')]\<rparr>
      = Inl (PciRequestFromVIFNotFound ''0000:81:00.1'' 1)
   \<and> get_instance_pci_request_from_vif (\<lambda>h n. Inr \<lparr>node_id = 1\<rparr>)
        \<lparr>host = ''h'', node = ''n'',
         pci_devices = [\<lparr>compute_node_id = 1, address = ''0000:81:00.1'',
                         dev_request_id = Some ''r1''\<rparr>],
         pci_requests = \<lparr>requests =
           [\<lparr>count = 1, spec = [], alias_name = None, numa_policy = None,
             request_id = Some ''r1''\<rparr>]\<rparr>\<rparr>
        \<lparr>profile = Some [(''pci_slot'', ''0000:81:00.1'')]\<rparr>
      = Inr (Some \<lparr>count = 1, spec = [], alias_name = None, numa_policy = None,
             request_id = Some ''r1''\<rparr>)"
  using
    resolver_request_of_device [of "\<lparr>profile = Some [(''pci_slot'', ''0000:81:00.1'')]\<rparr>"
      "''0000:81:00.1''" "\<lambda>h n. Inr \<lparr>node_id = 1\<rparr>"
      "\<lparr>host = ''h'', node = ''n'',
         pci_devices = [\<lparr>compute_node_id = 1, address = ''0000:81:00.1'',
                         dev_request_id = Some ''r1''\<rparr>],
         pci_requests = \<lparr>requests =
           [\<lparr>count = 1, spec = [], alias_name = None, numa_policy = None,
             request_id = Some ''r1''\<rparr>]\<rparr>\<rparr>"
      "\<lparr>node_id = 1\<rparr>"
      "\<lparr>compute_node_id = 1, address = ''0000:81:00.1'', dev_request_id = Some ''r1''\<rparr>"]
    resolver_request_of_device [of "\<lparr>profile = Some [(''pci_slot'', ''0000:81:00.1'')]\<rparr>"
      "''0000:81:00.1''" "\<lambda>h n. Inr \<lparr>node_id = 1\<rparr>"
      "\<lparr>host = ''h'', node = ''n'',
         pci_devices = [\<lparr>compute_node_id = 1, address = ''0000:81:00.1'',
                         dev_request_id = Some ''r1''\<rparr>],
         pci_requests = \<lparr>requests =
           [\<lparr>count = 1, spec = [], alias_name = None, numa_policy = None,
             request_id = Some ''r2''\<rparr>]\<rparr>\<rparr>"
      "\<lparr>node_id = 1\<rparr>"
      "\<lparr>compute_node_id = 1, address = ''0000:81:00.1'', dev_request_id = Some ''r1''\<rparr>"]
  by (simp add: vif_pci_dev_addr_of_def)

subsection \<open>The checks of the alias table\<close>

lemma aliases_failing_eq:
  "aliases_failing ok aliases =
     set (map fst (filter (\<lambda>a. list_ex (\<lambda>s. \<not> ok s) (snd (snd a))) aliases))"
  unfolding aliases_failing_def
  by (induction aliases) (auto simp: list_ex_iff split: prod.splits)

lemma aliases_failing_empty:
  "aliases_failing ok aliases = {} \<longleftrightarrow>
     \<not> list_ex (\<lambda>a. list_ex (\<lambda>s. \<not> ok s) (snd (snd a))) aliases"
  by (auto simp: aliases_failing_eq list_ex_iff filter_empty_conv)

text \<open>
  Claim C3. When \<open>pci_in_placement\<close> is on and an alias of the merged table has more
  than one spec, the checks of the table, and with them the construction of the table,
  fail with a \<open>PciInvalidAlias\<close> whose message lists the names of all such aliases,
  joined by commas in the order of the table. The result does not depend on the specs,
  so the failure comes before the check of the required identifiers.
\<close>

theorem multispec_check_fails_first:
  assumes "list_ex (\<lambda>a. 1 < length (snd (snd a))) aliases"
  shows "validate_aliases True aliases =
           Inl (PciInvalidAlias (Message (multiple_specs_message
             (join '','' (map fst (filter (\<lambda>a. 1 < length (snd (snd a))) aliases))))))
       \<and> (build_aliases [] jaliases = Inr aliases \<longrightarrow>
            get_alias_from_config True jaliases =
              Inl (PciInvalidAlias (Message (multiple_specs_message
                (join '','' (map fst (filter (\<lambda>a. 1 < length (snd (snd a))) aliases)))))))"
proof -
  from assms have "filter (\<lambda>a. 1 < length (snd (snd a))) aliases \<noteq> []"
    by (simp add: filter_empty_conv list_ex_iff)
  then have "validate_multispec True aliases =
           Inl (PciInvalidAlias (Message (multiple_specs_message
             (join '','' (map fst (filter (\<lambda>a. 1 < length (snd (snd a))) aliases))))))"
    by (simp add: validate_multispec_def case_prod_unfold)
  then have v: "validate_aliases True aliases =
           Inl (PciInvalidAlias (Message (multiple_specs_message
             (join '','' (map fst (filter (\<lambda>a. 1 < length (snd (snd a))) aliases))))))"
    by (simp add: validate_aliases_def)
  then show ?thesis
    by (simp add: get_alias_from_config_def)
qed

text \<open>
  Claim C4. For every alias table the check of the required identifiers raises
  \<open>PciInvalidAlias\<close> exactly when some spec fails the rule of the mode, and the message
  lists the names of the aliases with such a spec, as a sorted set joined by commas.
  With \<open>pci_in_placement\<close> on a spec passes iff it has \<open>vendor_id\<close> and \<open>product_id\<close>
  or has a \<open>resource_class\<close>; with it off, iff it has \<open>vendor_id\<close> and \<open>product_id\<close>.
\<close>

theorem required_ids_check:
  "validate_required_ids pci_in_placement aliases =
     (if list_ex (\<lambda>a. list_ex (\<lambda>s. \<not> (has_ids s \<or> pci_in_placement \<and> has_rc s))
                          (snd (snd a))) aliases
      then Inl (PciInvalidAlias (Message
             ((if pci_in_placement then without_ids_or_rc_message else without_ids_message)
                (join '','' (sorted_list_of_set (set (map fst
                   (filter (\<lambda>a. list_ex (\<lambda>s. \<not> (has_ids s \<or> pci_in_placement \<and> has_rc s))
                                     (snd (snd a))) aliases))))))))
      else Inr ())"
proof (cases pci_in_placement)
  case True
  then show ?thesis
    by (simp add: validate_required_ids_def aliases_failing_empty)
       (simp add: aliases_failing_eq)
next
  case False
  then show ?thesis
    by (simp add: validate_required_ids_def aliases_failing_empty)
       (simp add: aliases_failing_eq)
qed


theorem multispec_check_fails_first_witness:
  "list_ex (\<lambda>a. 1 < length (snd (snd a)))
     [(''b'', ''legacy'', [[(''traits'', ''T1'')], [(''traits'', ''T2'')]]),
      (''c'', ''legacy'', [[(''vendor_id'', ''8086''), (''product_id'', ''0443'')]]),
      (''a'', ''legacy'', [[(''resource_class'', ''X'')], [(''resource_class'', ''Y'')]])]
   \<and> validate_aliases True
     [(''b'', ''legacy'', [[(''traits'', ''T1'')], [(''traits'', ''T2'')]]),
      (''c'', ''legacy'', [[(''vendor_id'', ''8086''), (''product_id'', ''0443'')]]),
      (''a'', ''legacy'', [[(''resource_class'', ''X'')], [(''resource_class'', ''Y'')]])]
     = Inl (PciInvalidAlias (Message (multiple_specs_message ''b,a'')))
   \<and> build_aliases []
        [Inr (JObject [(''name'', JString ''gpu''), (''vendor_id'', JString ''8086''),
                       (''product_id'', JString ''0443''), (''device_type'', JString ''type-PCI'')]),
         Inr (JObject [(''name'', JString ''gpu''), (''vendor_id'', JString ''8086''),
                       (''product_id'', JString ''0442''), (''device_type'', JString ''type-PCI'')])]
     = Inr [(''gpu'', ''legacy'',
             [[(''vendor_id'', ''8086''), (''product_id'', ''0443''), (''dev_type'', ''type-PCI'')],
              [(''vendor_id'', ''8086''), (''product_id'', ''0442''), (''dev_type'', ''type-PCI'')]])]
   \<and> get_alias_from_config True
        [Inr (JObject [(''name'', JString ''gpu''), (''vendor_id'', JString ''8086''),
                       (''product_id'', JString ''0443''), (''device_type'', JString ''type-PCI'')]),
         Inr (JObject [(''name'', JString ''gpu''), (''vendor_id'', JString ''8086''),
                       (''product_id'', JString ''0442''), (''device_type'', JString ''type-PCI'')])]
     = Inl (PciInvalidAlias (Message (multiple_specs_message ''gpu'')))
   \<and> multiple_specs_message ''b,a'' =
       ''The PCI alias(es) b,a have multiple specs but [filter_scheduler]pci_in_placement is True. The PCI in Placement feature only supports one spec per alias. You can assign the same resource_class to multiple [pci]device_spec matchers to allow using different devices for the same alias.''"
proof -
  let ?T = "[(''b'', ''legacy'', [[(''traits'', ''T1'')], [(''traits'', ''T2'')]]),
      (''c'', ''legacy'', [[(''vendor_id'', ''8086''), (''product_id'', ''0443'')]]),
      (''a'', ''legacy'', [[(''resource_class'', ''X'')], [(''resource_class'', ''Y'')]])]"
  let ?J = "[Inr (JObject [(''name'', JString ''gpu''), (''vendor_id'', JString ''8086''),
                       (''product_id'', JString ''0443''), (''device_type'', JString ''type-PCI'')]),
         Inr (JObject [(''name'', JString ''gpu''), (''vendor_id'', JString ''8086''),
                       (''product_id'', JString ''0442''), (''device_type'', JString ''type-PCI'')])]"
  let ?G = "[(''gpu'', ''legacy'',
             [[(''vendor_id'', ''8086''), (''product_id'', ''0443''), (''dev_type'', ''type-PCI'')],
              [(''vendor_id'', ''8086''), (''product_id'', ''0442''), (''dev_type'', ''type-PCI'')]])]"
  have t: "list_ex (\<lambda>a. 1 < length (snd (snd a))) ?T"
    by simp
  have g: "list_ex (\<lambda>a. 1 < length (snd (snd a))) ?G"
    by simp
  have b: "build_aliases [] ?J = Inr ?G"
    by code_simp
  from multispec_check_fails_first [OF t]
  have 1: "validate_aliases True ?T = Inl (PciInvalidAlias (Message (multiple_specs_message ''b,a'')))"
    by simp
  from multispec_check_fails_first [OF g, of ?J] b
  have 2: "get_alias_from_config True ?J = Inl (PciInvalidAlias (Message (multiple_specs_message ''gpu'')))"
    by simp
  have m: "multiple_specs_message ''b,a'' =
       ''The PCI alias(es) b,a have multiple specs but [filter_scheduler]pci_in_placement is True. The PCI in Placement feature only supports one spec per alias. You can assign the same resource_class to multiple [pci]device_spec matchers to allow using different devices for the same alias.''"
    by (simp add: multiple_specs_message_def)
  from t b 1 2 m show ?thesis
    by blast
qed

theorem required_ids_check_witness:
  "validate_required_ids False
     [(''b'', ''legacy'', [[(''resource_class'', ''CUSTOM_X'')]]),
      (''a'', ''legacy'', [[(''vendor_id'', ''8086'')]]),
      (''c'', ''legacy'', [[(''vendor_id'', ''8086''), (''product_id'', ''0443'')]])]
     = Inl (PciInvalidAlias (Message (without_ids_message ''a,b'')))
   \<and> validate_required_ids True
     [(''b'', ''legacy'', [[(''resource_class'', ''CUSTOM_X'')]]),
      (''a'', ''legacy'', [[(''vendor_id'', ''8086'')]]),
      (''c'', ''legacy'', [[(''vendor_id'', ''8086''), (''product_id'', ''0443'')]])]
     = Inl (PciInvalidAlias (Message (without_ids_or_rc_message ''a'')))
   \<and> validate_required_ids True
     [(''b'', ''legacy'', [[(''resource_class'', ''CUSTOM_X'')]]),
      (''c'', ''legacy'', [[(''vendor_id'', ''8086''), (''product_id'', ''0443'')]])]
     = Inr ()
   \<and> without_ids_message ''a,b'' =
       ''The PCI alias(es) a,b does not have vendor_id and product_id fields set.''
   \<and> without_ids_or_rc_message ''a'' =
       ''The PCI alias(es) a does not have vendor_id and product_id fields set or resource_class field set.''"
  using
    required_ids_check [of False
      "[(''b'', ''legacy'', [[(''resource_class'', ''CUSTOM_X'')]]),
        (''a'', ''legacy'', [[(''vendor_id'', ''8086'')]]),
        (''c'', ''legacy'', [[(''vendor_id'', ''8086''), (''product_id'', ''0443'')]])]"]
    required_ids_check [of True
      "[(''b'', ''legacy'', [[(''resource_class'', ''CUSTOM_X'')]]),
        (''a'', ''legacy'', [[(''vendor_id'', ''8086'')]]),
        (''c'', ''legacy'', [[(''vendor_id'', ''8086''), (''product_id'', ''0443'')]])]"]
    required_ids_check [of True
      "[(''b'', ''legacy'', [[(''resource_class'', ''CUSTOM_X'')]]),
        (''c'', ''legacy'', [[(''vendor_id'', ''8086''), (''product_id'', ''0443'')]])]"]
  by (simp add: has_ids_def has_rc_def sorted_list_of_set_sort_remdups
        without_ids_message_def without_ids_or_rc_message_def)

subsection \<open>Merging the entries of one alias\<close>

text \<open>
  What the name, the policy and the spec of a decoded entry are in terms of the entry:
  the name is the stripped \<open>name\<close>, the policy is \<open>numa_policy\<close> or the default, and
  the spec has a \<open>dev_type\<close> exactly when the entry has a \<open>device_type\<close>.
\<close>

lemma property_ok_string: "property_ok k v \<Longrightarrow> \<exists>s. v = JString s"
  by (cases v) (simp_all add: property_ok_def)

lemma map_of_members:
  assumes "list_all (\<lambda>(k, v). property_ok k v) items"
  shows "map_of (members items) k = Some s \<longleftrightarrow> map_of items k = Some (JString s)"
  using assms
proof (induction items rule: members.induct)
  case 1
  then show ?case by simp
next
  case (2 k' s' items)
  then show ?case by auto
qed (auto dest: property_ok_string)

lemma map_of_members_None:
  assumes "list_all (\<lambda>(k, v). property_ok k v) items"
  shows "map_of (members items) k = None \<longleftrightarrow> map_of items k = None"
  using assms
proof (induction items rule: members.induct)
  case 1
  then show ?case by simp
next
  case (2 k' s' items)
  then show ?case by auto
qed (auto dest: property_ok_string)

lemma no_dev_type_key:
  assumes "list_all (\<lambda>(k, v). property_ok k v) items"
  shows "map_of items ''dev_type'' = None"
proof (rule ccontr)
  assume "map_of items ''dev_type'' \<noteq> None"
  then obtain v where "(''dev_type'', v) \<in> set items"
    by (auto dest: map_of_SomeD)
  with assms have "property_ok ''dev_type'' v"
    by (auto simp: list_all_iff)
  then show False
    by (auto simp: property_ok_def split: json.splits)
qed

lemma device_type_nonempty:
  assumes "list_all (\<lambda>(k, v). property_ok k v) items"
    and "map_of items ''device_type'' = Some (JString d)"
  shows "d \<noteq> []"
proof -
  from assms(2) have "(''device_type'', JString d) \<in> set items"
    by (rule map_of_SomeD)
  with assms(1) have "property_ok ''device_type'' (JString d)"
    by (auto simp: list_all_iff)
  then show ?thesis
    by (auto simp: property_ok_def PciDeviceType_STANDARD_def PciDeviceType_SRIOV_PF_def
          PciDeviceType_SRIOV_VF_def)
qed

lemma alias_of_entry_Inr:
  assumes "alias_of_entry (Inr (JObject items)) = Inr (name, pol, s)"
  shows "list_all (\<lambda>(k, v). property_ok k v) items"
    and "\<exists>raw. map_of (members items) ''name'' = Some raw \<and> name = strip raw"
    and "pol = (case map_of (members items) ''numa_policy'' of
                  None \<Rightarrow> PCINUMAAffinityPolicy_LEGACY
                | Some p \<Rightarrow> if p = [] then PCINUMAAffinityPolicy_LEGACY else p)"
    and "map_of s ''dev_type'' =
           (case map_of (members items) ''device_type'' of
              None \<Rightarrow> map_of (members items) ''dev_type''
            | Some d \<Rightarrow> if d = [] then map_of (members items) ''dev_type'' else Some d)"
proof -
  from assms show ok: "list_all (\<lambda>(k, v). property_ok k v) items"
    by (simp add: alias_of_entry_def alias_schema_ok_def split: if_splits)
  from assms have ok': "alias_schema_ok (JObject items)"
    by (simp add: alias_of_entry_def split: if_splits)
  from assms ok' obtain raw where raw: "map_of (members items) ''name'' = Some raw"
    by (cases "map_of (members items) ''name''") (simp_all add: alias_of_entry_def Let_def)
  define spec4 where "spec4 =
    (case map_of (AList.delete ''numa_policy'' (AList.delete ''name'' (members items))) ''device_type'' of
       None \<Rightarrow> AList.delete ''device_type'' (AList.delete ''numa_policy'' (AList.delete ''name'' (members items)))
     | Some d \<Rightarrow> if d = [] then AList.delete ''device_type'' (AList.delete ''numa_policy'' (AList.delete ''name'' (members items)))
         else AList.update ''dev_type'' d (AList.delete ''device_type'' (AList.delete ''numa_policy'' (AList.delete ''name'' (members items)))))"
  define pol' where "pol' = (case map_of (AList.delete ''name'' (members items)) ''numa_policy'' of
                  None \<Rightarrow> PCINUMAAffinityPolicy_LEGACY
                | Some p \<Rightarrow> if p = [] then PCINUMAAffinityPolicy_LEGACY else p)"
  have unfolded: "alias_of_entry (Inr (JObject items)) =
     (case map_of spec4 ''live_migratable'' of
        None \<Rightarrow> Inr (strip raw, pol', AList.delete ''live_migratable'' spec4)
      | Some lm \<Rightarrow>
          (case bool_from_string lm of
             None \<Rightarrow> Inl ValueError
           | Some b \<Rightarrow>
               Inr (strip raw, pol',
                    AList.update ''live_migratable'' (if b then ''true'' else ''false'')
                      (AList.delete ''live_migratable'' spec4))))"
    unfolding alias_of_entry_def Let_def spec4_def pol'_def using ok' raw
    by (simp only: sum.case json.case option.case not_True_eq_False if_False)
  with assms have res: "name = strip raw" "pol = pol'"
    "map_of s ''dev_type'' = map_of spec4 ''dev_type''"
    by (auto simp: AList.delete_conv' AList.update_conv' split: option.splits)
  from res(1) raw show "\<exists>raw. map_of (members items) ''name'' = Some raw \<and> name = strip raw"
    by simp
  from res(2) show "pol = (case map_of (members items) ''numa_policy'' of
                  None \<Rightarrow> PCINUMAAffinityPolicy_LEGACY
                | Some p \<Rightarrow> if p = [] then PCINUMAAffinityPolicy_LEGACY else p)"
    by (simp add: pol'_def AList.delete_conv')
  from res(3) show "map_of s ''dev_type'' =
           (case map_of (members items) ''device_type'' of
              None \<Rightarrow> map_of (members items) ''dev_type''
            | Some d \<Rightarrow> if d = [] then map_of (members items) ''dev_type'' else Some d)"
    by (simp add: spec4_def AList.delete_conv' AList.update_conv' split: option.splits)
qed

lemma dev_type_of_entry:
  assumes "alias_of_entry (Inr (JObject items)) = Inr (name, pol, s)"
  shows "map_of s ''dev_type'' = Some d \<longleftrightarrow> map_of items ''device_type'' = Some (JString d)"
proof -
  note a = alias_of_entry_Inr [OF assms]
  note m = map_of_members [OF a(1)] map_of_members_None [OF a(1)]
  have nd: "map_of (members items) ''dev_type'' = None"
    using no_dev_type_key [OF a(1)] m(2) by simp
  show ?thesis
  proof (cases "map_of (members items) ''device_type''")
    case None
    then have "map_of s ''dev_type'' = None"
      using a(4) nd by simp
    moreover from None have "map_of items ''device_type'' = None"
      using m(2) [of "''device_type''"] by simp
    ultimately show ?thesis
      by simp
  next
    case (Some d')
    then have raw: "map_of items ''device_type'' = Some (JString d')"
      using m(1) [of "''device_type''" d'] by simp
    then have "d' \<noteq> []"
      using device_type_nonempty [OF a(1)] by blast
    with Some a(4) have "map_of s ''dev_type'' = Some d'"
      by simp
    with raw show ?thesis
      by auto
  qed
qed

lemma name_of_entry:
  assumes "alias_of_entry (Inr (JObject items)) = Inr (name, pol, s)"
  shows "\<exists>raw. map_of items ''name'' = Some (JString raw) \<and> name = strip raw"
  using alias_of_entry_Inr(2) [OF assms] map_of_members [OF alias_of_entry_Inr(1) [OF assms]]
  by auto

lemma numa_policy_of_entry:
  assumes "alias_of_entry (Inr (JObject items)) = Inr (name, pol, s)"
  shows "pol = (case map_of items ''numa_policy'' of
                  Some (JString p) \<Rightarrow> p
                | _ \<Rightarrow> PCINUMAAffinityPolicy_LEGACY)"
proof -
  note a = alias_of_entry_Inr [OF assms]
  note m = map_of_members [OF a(1)] map_of_members_None [OF a(1)]
  show ?thesis
  proof (cases "map_of items ''numa_policy''")
    case None
    then have "map_of (members items) ''numa_policy'' = None"
      using m(2) [of "''numa_policy''"] by simp
    with a(3) None show ?thesis
      by simp
  next
    case (Some v)
    then have "(''numa_policy'', v) \<in> set items"
      by (rule map_of_SomeD)
    with a(1) have p: "property_ok ''numa_policy'' v"
      by (auto simp: list_all_iff)
    then obtain p' where v: "v = JString p'"
      by (auto dest: property_ok_string)
    with p have "p' \<noteq> []"
      by (auto simp: property_ok_def PCINUMAAffinityPolicy_ALL_def)
    moreover from Some v have "map_of (members items) ''numa_policy'' = Some p'"
      using m(1) [of "''numa_policy''" p'] by simp
    ultimately show ?thesis
      using a(3) Some v by simp
  qed
qed

text \<open>
  Every NUMA policy of a table that was built is one of the enumeration: that of an
  entry is the default or passed the schema, and merging keeps the policy stored.
\<close>

lemma legacy_is_policy: "PCINUMAAffinityPolicy_LEGACY \<in> set PCINUMAAffinityPolicy_ALL"
  by (simp add: PCINUMAAffinityPolicy_LEGACY_def PCINUMAAffinityPolicy_ALL_def)

lemma alias_of_entry_object:
  assumes "alias_of_entry e = Inr x"
  shows "\<exists>items. e = Inr (JObject items)"
proof (cases e)
  case (Inl err)
  with assms show ?thesis
    by (simp add: alias_of_entry_def)
next
  case (Inr j)
  with assms show ?thesis
    by (cases j) (simp_all add: alias_of_entry_def alias_schema_ok_def)
qed

lemma alias_of_entry_policy:
  assumes "alias_of_entry e = Inr (name, pol, s)"
  shows "pol \<in> set PCINUMAAffinityPolicy_ALL"
proof -
  from alias_of_entry_object [OF assms] obtain items where e: "e = Inr (JObject items)"
    by blast
  note a = alias_of_entry_Inr [OF assms [unfolded e]]
  show ?thesis
  proof (cases "map_of (members items) ''numa_policy''")
    case None
    with a(3) show ?thesis
      by (simp add: legacy_is_policy)
  next
    case (Some p)
    then have "map_of items ''numa_policy'' = Some (JString p)"
      using map_of_members [OF a(1), of "''numa_policy''" p] by simp
    then have "(''numa_policy'', JString p) \<in> set items"
      by (rule map_of_SomeD)
    with a(1) have "property_ok ''numa_policy'' (JString p)"
      by (auto simp: list_all_iff)
    then have "p \<in> set PCINUMAAffinityPolicy_ALL"
      by (simp add: property_ok_def)
    with Some a(3) show ?thesis
      by (simp add: legacy_is_policy)
  qed
qed

lemma add_alias_policies:
  assumes inv: "\<And>n p ss. map_of aliases n = Some (p, ss) \<Longrightarrow> p \<in> set PCINUMAAffinityPolicy_ALL"
    and pol: "pol \<in> set PCINUMAAffinityPolicy_ALL"
    and add: "add_alias aliases (name, pol, s) = Inr aliases'"
    and look: "map_of aliases' n = Some (p, ss)"
  shows "p \<in> set PCINUMAAffinityPolicy_ALL"
proof (cases "map_of aliases name")
  case None
  with add have "aliases' = AList.update name (pol, [s]) aliases"
    by (simp add: add_alias_def)
  with look have "((map_of aliases)(name \<mapsto> (pol, [s]))) n = Some (p, ss)"
    by (simp add: AList.update_conv')
  with inv pol show ?thesis
    by (cases "n = name") simp_all
next
  case (Some stored)
  obtain stored_policy specs where stored: "stored = (stored_policy, specs)"
    by (cases stored)
  from inv Some stored have sp: "stored_policy \<in> set PCINUMAAffinityPolicy_ALL"
    by simp
  from add Some stored have "aliases' = AList.update name (stored_policy, specs @ [s]) aliases"
    by (auto simp: add_alias_def split: if_splits list.splits option.splits)
  with look have "((map_of aliases)(name \<mapsto> (stored_policy, specs @ [s]))) n = Some (p, ss)"
    by (simp add: AList.update_conv')
  with inv sp show ?thesis
    by (cases "n = name") simp_all
qed

lemma build_aliases_policies:
  assumes "\<And>n p ss. map_of aliases n = Some (p, ss) \<Longrightarrow> p \<in> set PCINUMAAffinityPolicy_ALL"
    and "build_aliases aliases entries = Inr table"
    and "map_of table n = Some (p, ss)"
  shows "p \<in> set PCINUMAAffinityPolicy_ALL"
  using assms
proof (induction entries arbitrary: aliases)
  case Nil
  then show ?case by simp
next
  case (Cons e rest)
  from Cons.prems(2) obtain name pol s aliases' where
    e: "alias_of_entry e = Inr (name, pol, s)"
    and add: "add_alias aliases (name, pol, s) = Inr aliases'"
    and rest: "build_aliases aliases' rest = Inr table"
    by (auto split: sum.splits)
  have "p' \<in> set PCINUMAAffinityPolicy_ALL" if "map_of aliases' n' = Some (p', ss')"
    for n' p' ss'
    using Cons.prems(1) alias_of_entry_policy [OF e] add that
    by (rule add_alias_policies)
  from Cons.IH [OF this rest Cons.prems(3)] show ?case .
qed

lemma table_policies:
  assumes "get_alias_from_config b jaliases = Inr table"
    and "map_of table n = Some (p, ss)"
  shows "p \<in> set PCINUMAAffinityPolicy_ALL"
proof -
  from assms(1) have "build_aliases [] jaliases = Inr table"
    by (auto simp: get_alias_from_config_def split: sum.splits)
  from build_aliases_policies [OF _ this assms(2)] show ?thesis
    by simp
qed

text \<open>A table built from one entry holds that entry, and the entry passed the checks.\<close>

lemma single_entry_table:
  assumes "get_alias_from_config b [e] = Inr t"
  shows "\<exists>name pol s. alias_of_entry e = Inr (name, pol, s) \<and> t = [(name, pol, [s])]
           \<and> validate_aliases b [(name, pol, [s])] = Inr ()"
  using assms
  by (auto simp: get_alias_from_config_def add_alias_def split: sum.splits prod.splits)

lemma single_entry:
  assumes "get_alias_from_config b [e] = Inr [(name, pol, [s])]"
  shows "alias_of_entry e = Inr (name, pol, s)"
    and "validate_aliases b [(name, pol, [s])] = Inr ()"
  using single_entry_table [OF assms] by auto

lemma valid_single_has_ids:
  assumes "validate_aliases False [(name, pol, [s])] = Inr ()"
  shows "has_ids s"
  using assms
  by (auto simp: validate_aliases_def validate_multispec_def validate_required_ids_def
        aliases_failing_def split: if_splits)

lemma build_two:
  assumes "alias_of_entry e1 = Inr (name, pol, s1)" and "alias_of_entry e2 = Inr x"
  shows "build_aliases [] (e1 # e2 # rest) =
           (case add_alias [(name, pol, [s1])] x of
              Inl err \<Rightarrow> Inl err
            | Inr t \<Rightarrow> build_aliases t rest)"
  using assms by (simp add: add_alias_def)

text \<open>
  Claim C1, for the case in which the code merges: \<open>pci_in_placement\<close> is off, each of
  the two entries builds a table on its own, they have the same name and the same NUMA
  policy, and both carry a device type, the same one. Then the table of the two entries
  has a single alias whose spec list holds the two specs in the order of the entries.
  With \<open>pci_in_placement\<close> on the same two entries are refused at the check for
  multiple specs.
\<close>

theorem merge_same_named:
  assumes "get_alias_from_config False [e1] = Inr [(name, pol, [s1])]"
    and "get_alias_from_config False [e2] = Inr [(name, pol, [s2])]"
    and "map_of s1 ''dev_type'' = Some dev_type"
    and "map_of s2 ''dev_type'' = Some dev_type"
  shows "get_alias_from_config False [e1, e2] = Inr [(name, pol, [s1, s2])]
       \<and> get_alias_from_config True [e1, e2] =
           Inl (PciInvalidAlias (Message (multiple_specs_message name)))"
proof -
  note a1 = single_entry [OF assms(1)] and a2 = single_entry [OF assms(2)]
  have ids: "has_ids s1" "has_ids s2"
    using a1(2) a2(2) by (auto dest: valid_single_has_ids)
  have "add_alias [(name, pol, [s1])] (name, pol, s2) = Inr [(name, pol, [s1, s2])]"
    using assms(3,4) by (simp add: add_alias_def)
  then have b: "build_aliases [] [e1, e2] = Inr [(name, pol, [s1, s2])]"
    using build_two [OF a1(1) a2(1), of "[]"] by simp
  have off: "validate_aliases False [(name, pol, [s1, s2])] = Inr ()"
    using ids
    by (simp add: validate_aliases_def validate_multispec_def validate_required_ids_def
          aliases_failing_def)
  have on: "validate_aliases True [(name, pol, [s1, s2])] =
              Inl (PciInvalidAlias (Message (multiple_specs_message name)))"
    by (simp add: validate_aliases_def validate_multispec_def)
  from b off on show ?thesis
    by (simp add: get_alias_from_config_def)
qed

theorem merge_same_named_witness:
  "get_alias_from_config False [QuickAssist_0443] =
     Inr [(''QuickAssist'', ''legacy'',
           [[(''product_id'', ''0443''), (''vendor_id'', ''8086''), (''dev_type'', ''type-PCI'')]])]
   \<and> get_alias_from_config False [QuickAssist_0442] =
     Inr [(''QuickAssist'', ''legacy'',
           [[(''product_id'', ''0442''), (''vendor_id'', ''8086''), (''dev_type'', ''type-PCI'')]])]
   \<and> get_alias_from_config False [QuickAssist_0443, QuickAssist_0442] =
     Inr [(''QuickAssist'', ''legacy'',
           [[(''product_id'', ''0443''), (''vendor_id'', ''8086''), (''dev_type'', ''type-PCI'')],
            [(''product_id'', ''0442''), (''vendor_id'', ''8086''), (''dev_type'', ''type-PCI'')]])]
   \<and> get_alias_from_config True [QuickAssist_0443, QuickAssist_0442] =
     Inl (PciInvalidAlias (Message (multiple_specs_message ''QuickAssist'')))"
proof -
  have 1: "get_alias_from_config False [QuickAssist_0443] =
     Inr [(''QuickAssist'', ''legacy'',
           [[(''product_id'', ''0443''), (''vendor_id'', ''8086''), (''dev_type'', ''type-PCI'')]])]"
    by code_simp
  have 2: "get_alias_from_config False [QuickAssist_0442] =
     Inr [(''QuickAssist'', ''legacy'',
           [[(''product_id'', ''0442''), (''vendor_id'', ''8086''), (''dev_type'', ''type-PCI'')]])]"
    by code_simp
  from merge_same_named [OF 1 2, of "''type-PCI''"] 1 2 show ?thesis
    by simp
qed

text \<open>
  With \<open>pci_in_placement\<close> on, the two entries of the docstring, which agree on name,
  policy and device type and are each accepted alone, are refused together.
\<close>

theorem merge_same_named_strict_counterexample:
  "get_alias_from_config True [QuickAssist_0443] =
     Inr [(''QuickAssist'', ''legacy'',
           [[(''product_id'', ''0443''), (''vendor_id'', ''8086''), (''dev_type'', ''type-PCI'')]])]
   \<and> get_alias_from_config True [QuickAssist_0442] =
     Inr [(''QuickAssist'', ''legacy'',
           [[(''product_id'', ''0442''), (''vendor_id'', ''8086''), (''dev_type'', ''type-PCI'')]])]
   \<and> get_alias_from_config True [QuickAssist_0443, QuickAssist_0442] =
     Inl (PciInvalidAlias (Message (multiple_specs_message ''QuickAssist'')))"
  by code_simp

text \<open>
  Two entries with the same name and different policies, or with different device
  types, both given, are refused with a reason that names the alias.
\<close>

lemma mismatch_named:
  assumes "get_alias_from_config b [e1] = Inr [(name, pol1, [s1])]"
    and "get_alias_from_config b [e2] = Inr [(name, pol2, [s2])]"
  shows "pol1 \<noteq> pol2 \<Longrightarrow>
           get_alias_from_config b (e1 # e2 # rest) =
             Inl (PciInvalidAlias (Reason
               (''NUMA policy mismatch for alias '' @ quote @ name @ quote)))"
    and "pol1 = pol2 \<Longrightarrow> map_of s1 ''dev_type'' = Some d1 \<Longrightarrow> map_of s2 ''dev_type'' = Some d2
           \<Longrightarrow> d1 \<noteq> d2 \<Longrightarrow>
           get_alias_from_config b (e1 # e2 # rest) =
             Inl (PciInvalidAlias (Reason
               (''Device type mismatch for alias '' @ quote @ name @ quote)))"
proof -
  note a1 = single_entry [OF assms(1)] and a2 = single_entry [OF assms(2)]
  note bt = build_two [OF a1(1) a2(1), of rest]
  show "pol1 \<noteq> pol2 \<Longrightarrow>
           get_alias_from_config b (e1 # e2 # rest) =
             Inl (PciInvalidAlias (Reason
               (''NUMA policy mismatch for alias '' @ quote @ name @ quote)))"
    using bt by (simp add: add_alias_def get_alias_from_config_def)
  show "pol1 = pol2 \<Longrightarrow> map_of s1 ''dev_type'' = Some d1 \<Longrightarrow> map_of s2 ''dev_type'' = Some d2
           \<Longrightarrow> d1 \<noteq> d2 \<Longrightarrow>
           get_alias_from_config b (e1 # e2 # rest) =
             Inl (PciInvalidAlias (Reason
               (''Device type mismatch for alias '' @ quote @ name @ quote)))"
    using bt by (simp add: add_alias_def get_alias_from_config_def)
qed

text \<open>
  Claim C2, at two entries of the same name of which only the first gives a device type:
  each is accepted alone, and together they are refused with the text of the
  \<open>KeyError\<close> as the reason, which does not name the alias.
\<close>

theorem mismatch_reason_omits_alias:
  "get_alias_from_config False [QuickAssist_0443] =
     Inr [(''QuickAssist'', ''legacy'',
           [[(''product_id'', ''0443''), (''vendor_id'', ''8086''), (''dev_type'', ''type-PCI'')]])]
   \<and> get_alias_from_config False [QuickAssist_untyped] =
     Inr [(''QuickAssist'', ''legacy'',
           [[(''product_id'', ''0442''), (''vendor_id'', ''8086'')]])]
   \<and> get_alias_from_config False [QuickAssist_0443, QuickAssist_untyped] =
     Inl (PciInvalidAlias (TextOf (KeyError ''dev_type'')))"
  by code_simp

text \<open>
  Claim C10. Two entries that decode to the same name and the same NUMA policy, of
  which the first or the second (or both) has no device type, are not merged: the
  construction fails with the \<open>PciInvalidAlias\<close> made from the \<open>KeyError\<close> on
  \<open>dev_type\<close>, in both modes, whatever the specs hold otherwise and whatever entries
  follow.
\<close>

theorem missing_dev_type_not_merged:
  assumes "alias_of_entry e1 = Inr (name, pol, s1)"
    and "alias_of_entry e2 = Inr (name, pol, s2)"
    and "map_of s1 ''dev_type'' = None \<or> map_of s2 ''dev_type'' = None"
  shows "get_alias_from_config b (e1 # e2 # rest) =
           Inl (PciInvalidAlias (TextOf (KeyError ''dev_type'')))"
proof -
  have "add_alias [(name, pol, [s1])] (name, pol, s2) = Inl (KeyError ''dev_type'')"
    using assms(3) by (auto simp: add_alias_def split: option.splits)
  then have "build_aliases [] (e1 # e2 # rest) = Inl (KeyError ''dev_type'')"
    using build_two [OF assms(1,2), of rest] by simp
  then show ?thesis
    by (simp add: get_alias_from_config_def)
qed

theorem missing_dev_type_not_merged_witness:
  "alias_of_entry QuickAssist_0443 =
     Inr (''QuickAssist'', ''legacy'',
          [(''product_id'', ''0443''), (''vendor_id'', ''8086''), (''dev_type'', ''type-PCI'')])
   \<and> alias_of_entry QuickAssist_untyped =
     Inr (''QuickAssist'', ''legacy'', [(''product_id'', ''0442''), (''vendor_id'', ''8086'')])
   \<and> alias_of_entry QuickAssist_class =
     Inr (''QuickAssist'', ''legacy'', [(''resource_class'', ''CUSTOM_QAT'')])
   \<and> get_alias_from_config False [QuickAssist_untyped, QuickAssist_untyped] =
     Inl (PciInvalidAlias (TextOf (KeyError ''dev_type'')))
   \<and> get_alias_from_config False [QuickAssist_0443, QuickAssist_untyped] =
     Inl (PciInvalidAlias (TextOf (KeyError ''dev_type'')))
   \<and> get_alias_from_config False [QuickAssist_untyped, QuickAssist_0443] =
     Inl (PciInvalidAlias (TextOf (KeyError ''dev_type'')))
   \<and> get_alias_from_config False [QuickAssist_class, QuickAssist_class] =
     Inl (PciInvalidAlias (TextOf (KeyError ''dev_type'')))
   \<and> get_alias_from_config True [QuickAssist_class, QuickAssist_0443] =
     Inl (PciInvalidAlias (TextOf (KeyError ''dev_type'')))"
proof -
  have 1: "alias_of_entry QuickAssist_0443 =
     Inr (''QuickAssist'', ''legacy'',
          [(''product_id'', ''0443''), (''vendor_id'', ''8086''), (''dev_type'', ''type-PCI'')])"
    by code_simp
  have 2: "alias_of_entry QuickAssist_untyped =
     Inr (''QuickAssist'', ''legacy'', [(''product_id'', ''0442''), (''vendor_id'', ''8086'')])"
    by code_simp
  have 3: "alias_of_entry QuickAssist_class =
     Inr (''QuickAssist'', ''legacy'', [(''resource_class'', ''CUSTOM_QAT'')])"
    by code_simp
  from missing_dev_type_not_merged [OF 2 2, of False "[]"]
    missing_dev_type_not_merged [OF 1 2, of False "[]"]
    missing_dev_type_not_merged [OF 2 1, of False "[]"]
    missing_dev_type_not_merged [OF 3 3, of False "[]"]
    missing_dev_type_not_merged [OF 3 1, of True "[]"] 1 2 3
  show ?thesis
    by simp
qed

subsection \<open>Translating an alias string\<close>

text \<open>
  A request that one iteration builds: the pair has two parts, the stripped name is an
  alias of the table, the count is what \<open>int\<close> reads, the specs are the alias's, and
  the policy is the override unless that is \<open>None\<close> or empty.
\<close>

lemma alias_request_Inr:
  assumes "alias_request pci_aliases affinity_policy uuid parts = Inr r"
  shows "\<exists>name0 count0 pol specs.
           parts = [name0, count0]
         \<and> map_of pci_aliases (strip name0) = Some (pol, specs)
         \<and> py_int count0 = Some (count r)
         \<and> spec r = specs
         \<and> alias_name r = Some (strip name0)
         \<and> numa_policy r =
               Some (case affinity_policy of
                       None \<Rightarrow> pol
                     | Some p \<Rightarrow> if p = [] then pol else p)
         \<and> (case affinity_policy of
                None \<Rightarrow> pol
              | Some p \<Rightarrow> if p = [] then pol else p) \<in> set PCINUMAAffinityPolicy_ALL
         \<and> request_id r = Some uuid"
proof -
  from assms obtain name0 count0 where parts: "parts = [name0, count0]"
    by (auto simp: alias_request_def split: list.splits)
  with assms obtain pol specs where al: "map_of pci_aliases (strip name0) = Some (pol, specs)"
    by (cases "map_of pci_aliases (strip name0)") (auto simp: alias_request_def)
  with assms parts obtain c where c: "py_int count0 = Some c"
    by (cases "py_int count0") (auto simp: alias_request_def)
  define policy where
    "policy = (case affinity_policy of None \<Rightarrow> pol | Some p \<Rightarrow> if p = [] then pol else p)"
  from assms parts al c have new: "new_InstancePCIRequest c specs (strip name0) policy uuid = Inr r"
    by (simp add: alias_request_def policy_def)
  then have ok: "policy \<in> set PCINUMAAffinityPolicy_ALL"
    by (simp add: new_InstancePCIRequest_def split: if_splits)
  with new have
    "r = \<lparr>count = c, spec = specs, alias_name = Some (strip name0),
          numa_policy = Some policy, request_id = Some uuid\<rparr>"
    by (simp add: new_InstancePCIRequest_def)
  with parts al c ok show ?thesis
    by (simp add: policy_def)
qed

lemma translate_pairs_Cons:
  assumes "translate_pairs pci_aliases affinity_policy generate_uuid (parts # rest) n
             = Inr (reqs, n')"
  shows "\<exists>r rs. alias_request pci_aliases affinity_policy (generate_uuid n) parts = Inr r
           \<and> translate_pairs pci_aliases affinity_policy generate_uuid rest (Suc n)
               = Inr (rs, n')
           \<and> reqs = r # rs"
  using assms by (auto split: sum.splits prod.splits)

lemma translate_pairs_length:
  "translate_pairs pci_aliases affinity_policy generate_uuid pairs n = Inr (reqs, n')
     \<Longrightarrow> n' = n + length pairs \<and> length reqs = length pairs"
proof (induction pairs arbitrary: n reqs)
  case Nil
  then show ?case by simp
next
  case (Cons parts rest)
  from translate_pairs_Cons [OF Cons.prems] obtain r rs where
    rs: "translate_pairs pci_aliases affinity_policy generate_uuid rest (Suc n) = Inr (rs, n')"
    and reqs: "reqs = r # rs"
    by blast
  from Cons.IH [OF rs] reqs show ?case
    by simp
qed

lemma translate_pairs_request_ids:
  "translate_pairs pci_aliases affinity_policy generate_uuid pairs n = Inr (reqs, n')
     \<Longrightarrow> map request_id reqs = map (\<lambda>i. Some (generate_uuid i)) [n ..< n + length pairs]"
proof (induction pairs arbitrary: n reqs)
  case Nil
  then show ?case by simp
next
  case (Cons parts rest)
  from translate_pairs_Cons [OF Cons.prems] obtain r rs where
    r: "alias_request pci_aliases affinity_policy (generate_uuid n) parts = Inr r"
    and rs: "translate_pairs pci_aliases affinity_policy generate_uuid rest (Suc n) = Inr (rs, n')"
    and reqs: "reqs = r # rs"
    by blast
  from alias_request_Inr [OF r] have "request_id r = Some (generate_uuid n)"
    by blast
  moreover from Cons.IH [OF rs]
  have "map request_id rs = map (\<lambda>i. Some (generate_uuid i)) [Suc n ..< Suc n + length rest]" .
  moreover have "[n ..< n + length (parts # rest)] = n # [Suc n ..< Suc n + length rest]"
    by (simp add: upt_conv_Cons del: upt_Suc)
  ultimately show ?case
    using reqs by (simp del: upt_Suc)
qed

lemma translate_pairs_all2:
  "translate_pairs pci_aliases affinity_policy generate_uuid pairs n = Inr (reqs, n')
     \<Longrightarrow> list_all2 (\<lambda>r parts. \<exists>uuid. alias_request pci_aliases affinity_policy uuid parts = Inr r)
           reqs pairs"
  by (induction pairs arbitrary: n reqs) (auto split: sum.splits prod.splits)

lemma translate_Inr:
  assumes "translate_alias_to_requests b jaliases generate_uuid alias_spec affinity_policy n
             = Inr (reqs, n')"
  shows "\<exists>pci_aliases. get_alias_from_config b jaliases = Inr pci_aliases
           \<and> translate_pairs pci_aliases affinity_policy generate_uuid
                (map (split CHR '':'') (split CHR '','' alias_spec)) n = Inr (reqs, n')"
  using assms by (auto simp: translate_alias_to_requests_def split: sum.splits)

lemma request_ids_distinct:
  assumes "inj generate_uuid"
    and "translate_pairs pci_aliases affinity_policy generate_uuid pairs n = Inr (reqs, n')"
  shows "distinct (map request_id reqs)"
proof -
  from assms(1) have "inj (\<lambda>i. Some (generate_uuid i))"
    by (auto simp: inj_def)
  then have "distinct (map (\<lambda>i. Some (generate_uuid i)) [n ..< n + length pairs])"
    by (simp add: distinct_map inj_on_def inj_def)
  with translate_pairs_request_ids [OF assms(2)] show ?thesis
    by simp
qed

lemma split_gpu_2: "map (split CHR '':'') (split CHR '','' ''gpu:2'') = [[''gpu'', ''2'']]"
  by code_simp

lemma strip_gpu: "strip ''gpu'' = ''gpu''"
  by code_simp

lemma py_int_2: "py_int ''2'' = Some 2"
  by code_simp

text \<open>
  Claim C5. Against a table with an alias \<open>gpu\<close>, the string \<open>gpu:2\<close> yields exactly one
  request: its count is 2, its alias name is \<open>gpu\<close>, its specs are the spec list of the
  alias, and its NUMA policy is the override of the caller when one is provided (a NUMA
  affinity policy) and the policy of the alias when there is none.
\<close>

theorem translate_gpu_2:
  assumes "get_alias_from_config b jaliases = Inr pci_aliases"
    and "map_of pci_aliases ''gpu'' = Some (pol, specs)"
    and "case affinity_policy of
           None \<Rightarrow> True
         | Some p \<Rightarrow> p \<in> set PCINUMAAffinityPolicy_ALL"
  shows "translate_alias_to_requests b jaliases generate_uuid ''gpu:2'' affinity_policy n =
           Inr ([\<lparr>count = 2, spec = specs, alias_name = Some ''gpu'',
                  numa_policy = Some (case affinity_policy of None \<Rightarrow> pol | Some p \<Rightarrow> p),
                  request_id = Some (generate_uuid n)\<rparr>], Suc n)"
proof (cases affinity_policy)
  case None
  from table_policies [OF assms(1,2)] have "pol \<in> set PCINUMAAffinityPolicy_ALL" .
  with None assms(1,2) show ?thesis
    by (simp add: translate_alias_to_requests_def split_gpu_2 alias_request_def strip_gpu
          py_int_2 new_InstancePCIRequest_def)
next
  case (Some p)
  with assms(3) have p: "p \<in> set PCINUMAAffinityPolicy_ALL"
    by simp
  then have "p \<noteq> []"
    by (auto simp: PCINUMAAffinityPolicy_ALL_def)
  with Some p assms(1,2) show ?thesis
    by (simp add: translate_alias_to_requests_def split_gpu_2 alias_request_def strip_gpu
          py_int_2 new_InstancePCIRequest_def)
qed

lemma split_a_1_b_3:
  "map (split CHR '':'') (split CHR '','' ''a:1,b:3'') = [[''a'', ''1''], [''b'', ''3'']]"
  by code_simp

lemma strip_a_b: "strip ''a'' = ''a''" "strip ''b'' = ''b''"
  by code_simp+

lemma py_int_1_3: "py_int ''1'' = Some 1" "py_int ''3'' = Some 3"
  by code_simp+

text \<open>
  Claim C6. With a generator of identifiers that never repeats: against a table with
  the aliases \<open>a\<close> and \<open>b\<close>, and with no override or a NUMA affinity policy as override,
  the string \<open>a:1,b:3\<close> yields exactly two requests, for \<open>a\<close> and then for \<open>b\<close>, with
  different identifiers; and whenever a translation succeeds, the identifiers of its
  requests are pairwise different and the requests follow the pairs of the string, one
  request per pair in the same order.
\<close>

theorem translate_order_and_ids:
  assumes "inj generate_uuid"
    and "get_alias_from_config b jaliases = Inr pci_aliases"
  shows "(map_of pci_aliases ''a'' = Some (pol_a, specs_a)
          \<and> map_of pci_aliases ''b'' = Some (pol_b, specs_b)
          \<and> (case affinity_policy of
                None \<Rightarrow> True
              | Some p \<Rightarrow> p \<in> set PCINUMAAffinityPolicy_ALL) \<longrightarrow>
          (\<exists>ra rb. translate_alias_to_requests b jaliases generate_uuid ''a:1,b:3''
                      affinity_policy n = Inr ([ra, rb], n + 2)
                  \<and> alias_name ra = Some ''a'' \<and> count ra = 1 \<and> spec ra = specs_a
                  \<and> alias_name rb = Some ''b'' \<and> count rb = 3 \<and> spec rb = specs_b
                  \<and> request_id ra \<noteq> request_id rb))
       \<and> (translate_alias_to_requests b jaliases generate_uuid alias_spec affinity_policy n
            = Inr (reqs, n') \<longrightarrow>
          distinct (map request_id reqs)
          \<and> list_all2 (\<lambda>r pair. \<exists>name0 count0. split CHR '':'' pair = [name0, count0]
                                  \<and> alias_name r = Some (strip name0))
               reqs (split CHR '','' alias_spec))"
proof (intro conjI impI)
  assume a: "map_of pci_aliases ''a'' = Some (pol_a, specs_a)
          \<and> map_of pci_aliases ''b'' = Some (pol_b, specs_b)
          \<and> (case affinity_policy of
                None \<Rightarrow> True
              | Some p \<Rightarrow> p \<in> set PCINUMAAffinityPolicy_ALL)"
  from assms(1) have ne: "generate_uuid n \<noteq> generate_uuid (Suc n)"
    by (auto dest: injD)
  from a table_policies [OF assms(2)] have
    pols: "pol_a \<in> set PCINUMAAffinityPolicy_ALL" "pol_b \<in> set PCINUMAAffinityPolicy_ALL"
    by blast+
  show "\<exists>ra rb. translate_alias_to_requests b jaliases generate_uuid ''a:1,b:3''
                      affinity_policy n = Inr ([ra, rb], n + 2)
                  \<and> alias_name ra = Some ''a'' \<and> count ra = 1 \<and> spec ra = specs_a
                  \<and> alias_name rb = Some ''b'' \<and> count rb = 3 \<and> spec rb = specs_b
                  \<and> request_id ra \<noteq> request_id rb"
  proof (cases affinity_policy)
    case None
    with a ne pols assms(2) show ?thesis
      by (simp add: translate_alias_to_requests_def split_a_1_b_3 alias_request_def strip_a_b
            py_int_1_3 new_InstancePCIRequest_def)
  next
    case (Some p)
    with a have p: "p \<in> set PCINUMAAffinityPolicy_ALL"
      by simp
    then have "p \<noteq> []"
      by (auto simp: PCINUMAAffinityPolicy_ALL_def)
    with Some p a ne assms(2) show ?thesis
      by (simp add: translate_alias_to_requests_def split_a_1_b_3 alias_request_def strip_a_b
            py_int_1_3 new_InstancePCIRequest_def)
  qed
next
  assume "translate_alias_to_requests b jaliases generate_uuid alias_spec affinity_policy n
            = Inr (reqs, n')"
  with assms(2) have
    tp: "translate_pairs pci_aliases affinity_policy generate_uuid
                (map (split CHR '':'') (split CHR '','' alias_spec)) n = Inr (reqs, n')"
    by (simp add: translate_alias_to_requests_def)
  from request_ids_distinct [OF assms(1) tp] show "distinct (map request_id reqs)" .
  have "list_all2 (\<lambda>r parts. \<exists>name0 count0. parts = [name0, count0]
                                  \<and> alias_name r = Some (strip name0))
               reqs (map (split CHR '':'') (split CHR '','' alias_spec))"
    by (rule list_all2_mono [OF translate_pairs_all2 [OF tp]])
       (blast dest: alias_request_Inr)
  then show "list_all2 (\<lambda>r pair. \<exists>name0 count0. split CHR '':'' pair = [name0, count0]
                                  \<and> alias_name r = Some (strip name0))
               reqs (split CHR '','' alias_spec)"
    by (simp add: list_all2_map2)
qed

text \<open>
  Claim C7, without the sign: whenever a translation succeeds, the count of each request
  is the integer that \<open>int\<close> reads from the count of its pair. Nothing checks that it is
  positive.
\<close>

theorem translate_counts:
  assumes "translate_alias_to_requests b jaliases generate_uuid alias_spec affinity_policy n
             = Inr (reqs, n')"
  shows "list_all2 (\<lambda>r pair. \<exists>name0 count0. split CHR '':'' pair = [name0, count0]
                                \<and> py_int count0 = Some (count r))
           reqs (split CHR '','' alias_spec)"
proof -
  from translate_Inr [OF assms] obtain pci_aliases where
    tp: "translate_pairs pci_aliases affinity_policy generate_uuid
                (map (split CHR '':'') (split CHR '','' alias_spec)) n = Inr (reqs, n')"
    by blast
  have "list_all2 (\<lambda>r parts. \<exists>name0 count0. parts = [name0, count0]
                                  \<and> py_int count0 = Some (count r))
               reqs (map (split CHR '':'') (split CHR '','' alias_spec))"
    by (rule list_all2_mono [OF translate_pairs_all2 [OF tp]])
       (blast dest: alias_request_Inr)
  then show ?thesis
    by (simp add: list_all2_map2)
qed

lemma inj_letters: "inj letters"
proof (rule injI)
  fix m n
  assume "letters m = letters n"
  then have "length (letters m) = length (letters n)"
    by simp
  then show "m = n"
    by (simp add: letters_def)
qed

lemma gpu_table:
  "get_alias_from_config False [gpu_entry] =
     Inr [(''gpu'', ''preferred'', [[(''vendor_id'', ''10de''), (''product_id'', ''1db6'')]])]"
  by code_simp

lemma a_b_table:
  "get_alias_from_config False [a_entry, b_entry] =
     Inr [(''a'', ''legacy'', [[(''vendor_id'', ''8086''), (''product_id'', ''0443'')]]),
          (''b'', ''legacy'', [[(''vendor_id'', ''8086''), (''product_id'', ''0442''),
                                (''dev_type'', ''type-VF'')]])]"
  by code_simp

theorem translate_gpu_2_witness:
  "get_alias_from_config False [gpu_entry] =
     Inr [(''gpu'', ''preferred'', [[(''vendor_id'', ''10de''), (''product_id'', ''1db6'')]])]
   \<and> ''required'' \<in> set PCINUMAAffinityPolicy_ALL
   \<and> translate_alias_to_requests False [gpu_entry] letters ''gpu:2'' (Some ''required'') 0 =
       Inr ([\<lparr>count = 2, spec = [[(''vendor_id'', ''10de''), (''product_id'', ''1db6'')]],
              alias_name = Some ''gpu'', numa_policy = Some ''required'',
              request_id = Some (letters 0)\<rparr>], 1)
   \<and> translate_alias_to_requests False [gpu_entry] letters ''gpu:2'' None 0 =
       Inr ([\<lparr>count = 2, spec = [[(''vendor_id'', ''10de''), (''product_id'', ''1db6'')]],
              alias_name = Some ''gpu'', numa_policy = Some ''preferred'',
              request_id = Some (letters 0)\<rparr>], 1)"
proof -
  have p: "''required'' \<in> set PCINUMAAffinityPolicy_ALL"
    by (simp add: PCINUMAAffinityPolicy_ALL_def)
  from gpu_table p
    translate_gpu_2 [OF gpu_table, of "''preferred''"
      "[[(''vendor_id'', ''10de''), (''product_id'', ''1db6'')]]" "Some ''required''" letters 0]
    translate_gpu_2 [OF gpu_table, of "''preferred''"
      "[[(''vendor_id'', ''10de''), (''product_id'', ''1db6'')]]" None letters 0]
  show ?thesis
    by simp
qed

text \<open>An override that is no NUMA affinity policy is refused by the request.\<close>

lemma translate_gpu_2_bogus_override:
  "translate_alias_to_requests False [gpu_entry] letters ''gpu:2'' (Some ''bogus'') 0 =
     Inl ValueError"
  by code_simp

text \<open>\<open>int\<close> refuses a separator that \<open>str.strip()\<close> removes.\<close>

lemma py_int_separator: "py_int [CHR 0x1C, CHR ''2''] = None" "strip [CHR 0x1C, CHR ''2''] = ''2''"
  by code_simp+

theorem translate_order_and_ids_witness:
  "inj letters
   \<and> get_alias_from_config False [a_entry, b_entry] =
       Inr [(''a'', ''legacy'', [[(''vendor_id'', ''8086''), (''product_id'', ''0443'')]]),
            (''b'', ''legacy'', [[(''vendor_id'', ''8086''), (''product_id'', ''0442''),
                                  (''dev_type'', ''type-VF'')]])]
   \<and> translate_alias_to_requests False [a_entry, b_entry] letters ''a:1,b:3'' None 0 =
       Inr ([\<lparr>count = 1, spec = [[(''vendor_id'', ''8086''), (''product_id'', ''0443'')]],
              alias_name = Some ''a'', numa_policy = Some ''legacy'',
              request_id = Some (letters 0)\<rparr>,
             \<lparr>count = 3, spec = [[(''vendor_id'', ''8086''), (''product_id'', ''0442''),
                                  (''dev_type'', ''type-VF'')]],
              alias_name = Some ''b'', numa_policy = Some ''legacy'',
              request_id = Some (letters 1)\<rparr>], 2)
   \<and> distinct (map request_id
        [\<lparr>count = 1, spec = [[(''vendor_id'', ''8086''), (''product_id'', ''0443'')]],
              alias_name = Some ''a'', numa_policy = Some ''legacy'',
              request_id = Some (letters 0)\<rparr>,
             \<lparr>count = 3, spec = [[(''vendor_id'', ''8086''), (''product_id'', ''0442''),
                                  (''dev_type'', ''type-VF'')]],
              alias_name = Some ''b'', numa_policy = Some ''legacy'',
              request_id = Some (letters 1)\<rparr>])
   \<and> list_all2 (\<lambda>r pair. \<exists>name0 count0. split CHR '':'' pair = [name0, count0]
                                  \<and> alias_name r = Some (strip name0))
        [\<lparr>count = 1, spec = [[(''vendor_id'', ''8086''), (''product_id'', ''0443'')]],
              alias_name = Some ''a'', numa_policy = Some ''legacy'',
              request_id = Some (letters 0)\<rparr>,
             \<lparr>count = 3, spec = [[(''vendor_id'', ''8086''), (''product_id'', ''0442''),
                                  (''dev_type'', ''type-VF'')]],
              alias_name = Some ''b'', numa_policy = Some ''legacy'',
              request_id = Some (letters 1)\<rparr>]
        (split CHR '','' ''a:1,b:3'')"
proof -
  let ?reqs = "[\<lparr>count = 1, spec = [[(''vendor_id'', ''8086''), (''product_id'', ''0443'')]],
              alias_name = Some ''a'', numa_policy = Some ''legacy'',
              request_id = Some (letters 0)\<rparr>,
             \<lparr>count = 3, spec = [[(''vendor_id'', ''8086''), (''product_id'', ''0442''),
                                  (''dev_type'', ''type-VF'')]],
              alias_name = Some ''b'', numa_policy = Some ''legacy'',
              request_id = Some (letters 1)\<rparr>]"
  have tr: "translate_alias_to_requests False [a_entry, b_entry] letters ''a:1,b:3'' None 0 =
              Inr (?reqs, 2)"
    by code_simp
  from translate_order_and_ids [OF inj_letters a_b_table,
      of "''legacy''" "[[(''vendor_id'', ''8086''), (''product_id'', ''0443'')]]"
         "''legacy''" "[[(''vendor_id'', ''8086''), (''product_id'', ''0442''),
                                  (''dev_type'', ''type-VF'')]]"
         None 0 "''a:1,b:3''" ?reqs 2] tr
  have "distinct (map request_id ?reqs)
      \<and> list_all2 (\<lambda>r pair. \<exists>name0 count0. split CHR '':'' pair = [name0, count0]
                                  \<and> alias_name r = Some (strip name0))
           ?reqs (split CHR '','' ''a:1,b:3'')"
    by blast
  with inj_letters a_b_table tr show ?thesis
    by blast
qed

theorem translate_counts_witness:
  "translate_alias_to_requests False [gpu_entry] letters ''gpu:2'' None 0 =
       Inr ([\<lparr>count = 2, spec = [[(''vendor_id'', ''10de''), (''product_id'', ''1db6'')]],
              alias_name = Some ''gpu'', numa_policy = Some ''preferred'',
              request_id = Some (letters 0)\<rparr>], 1)
   \<and> list_all2 (\<lambda>r pair. \<exists>name0 count0. split CHR '':'' pair = [name0, count0]
                                \<and> py_int count0 = Some (count r))
       [\<lparr>count = 2, spec = [[(''vendor_id'', ''10de''), (''product_id'', ''1db6'')]],
              alias_name = Some ''gpu'', numa_policy = Some ''preferred'',
              request_id = Some (letters 0)\<rparr>]
       (split CHR '','' ''gpu:2'')"
proof -
  have tr: "translate_alias_to_requests False [gpu_entry] letters ''gpu:2'' None 0 =
       Inr ([\<lparr>count = 2, spec = [[(''vendor_id'', ''10de''), (''product_id'', ''1db6'')]],
              alias_name = Some ''gpu'', numa_policy = Some ''preferred'',
              request_id = Some (letters 0)\<rparr>], 1)"
    by code_simp
  from translate_counts [OF tr] tr show ?thesis
    by blast
qed

text \<open>The counts 0 and -1 are translated like any other.\<close>

theorem translate_counts_not_positive_counterexample:
  "translate_alias_to_requests False [gpu_entry] letters ''gpu:0'' None 0 =
       Inr ([\<lparr>count = 0, spec = [[(''vendor_id'', ''10de''), (''product_id'', ''1db6'')]],
              alias_name = Some ''gpu'', numa_policy = Some ''preferred'',
              request_id = Some (letters 0)\<rparr>], 1)
   \<and> translate_alias_to_requests False [gpu_entry] letters ''gpu:-1'' None 0 =
       Inr ([\<lparr>count = - 1, spec = [[(''vendor_id'', ''10de''), (''product_id'', ''1db6'')]],
              alias_name = Some ''gpu'', numa_policy = Some ''preferred'',
              request_id = Some (letters 0)\<rparr>], 1)"
  by code_simp

end
